theory Spec2Isabelle
  imports Main
begin

section \<open>Header fields\<close>

text \<open>
  The proxy keeps header fields in the \<open>heat.Fields\<close> type of the HTTP library it is
  built on: an ordered list of name/value pairs in which a name may occur several times.
  Go strings are byte strings, and so is \<^typ>\<open>string\<close>. The library is a
  repository of its own; the operations on fields that the proxy calls are written out
  here, from what the specification says of them and from their use.
\<close>

record Field =
  Name :: string
  Value :: string

type_synonym Fields = "Field list"

text \<open>
  Modelled from the spec: \<open>heat.Field.Is\<close>, of the HTTP library. Field names are compared
  without regard to ASCII letter case.
\<close>

definition lower :: "char \<Rightarrow> char" where
  "lower c = (let n = (of_char c :: nat) in if 65 \<le> n \<and> n \<le> 90 then char_of (n + 32) else c)"

definition strcaseeq :: "string \<Rightarrow> string \<Rightarrow> bool" where
  "strcaseeq a b = (map lower a = map lower b)"

definition Is :: "Field \<Rightarrow> string \<Rightarrow> bool" where
  "Is f name = strcaseeq (Name f) name"

text \<open>
  Modelled from the spec: \<open>heat.Fields.Add\<close>, \<open>Filter\<close> and \<open>Set\<close>, of the HTTP library.
  \<open>Add\<close> appends a field; \<open>Filter\<close> keeps the fields the callback accepts, in their
  order; \<open>Set\<close> (here \<open>SetField\<close>) leaves exactly one field of the given name, the new
  one. The theorems below read the result of \<open>Set\<close> only through \<open>values_of\<close>, so they do
  not depend on where in the list the new field is put.
\<close>

definition Add :: "Fields \<Rightarrow> string \<Rightarrow> string \<Rightarrow> Fields" where
  "Add fs name v = fs @ [\<lparr>Name = name, Value = v\<rparr>]"

definition Filter :: "Fields \<Rightarrow> (Field \<Rightarrow> bool) \<Rightarrow> Fields" where
  "Filter fs fn = filter fn fs"

definition SetField :: "Fields \<Rightarrow> string \<Rightarrow> string \<Rightarrow> Fields" where
  "SetField fs name v = Add (Filter fs (\<lambda>f. \<not> Is f name)) name v"

text \<open>
  Modelled from the spec: \<open>heat.Fields.Split\<close>, of the HTTP library. \<open>Split name sep\<close>
  collects, over every field called \<open>name\<close>, the pieces of its value between occurrences
  of \<open>sep\<close>, with the blanks around each piece removed.
\<close>

fun split_on :: "char \<Rightarrow> string \<Rightarrow> string \<Rightarrow> string list" where
  "split_on sep acc [] = [rev acc]"
| "split_on sep acc (c # cs) =
     (if c = sep then rev acc # split_on sep [] cs else split_on sep (c # acc) cs)"

definition is_blank :: "char \<Rightarrow> bool" where
  "is_blank c = (c = CHR '' '' \<or> c = CHR 0x09)"

definition trim :: "string \<Rightarrow> string" where
  "trim s = rev (dropWhile is_blank (rev (dropWhile is_blank s)))"

definition Split :: "Fields \<Rightarrow> string \<Rightarrow> char \<Rightarrow> string list" where
  "Split fs name sep =
     concat (map (\<lambda>f. map trim (split_on sep [] (Value f))) (filter (\<lambda>f. Is f name) fs))"

text \<open>The values of all fields called \<open>name\<close>, in order.\<close>

definition values_of :: "Fields \<Rightarrow> string \<Rightarrow> string list" where
  "values_of fs name = map Value (filter (\<lambda>f. Is f name) fs)"

section \<open>Decimal rendering\<close>

text \<open>Modelled from the spec: \<open>strconv.FormatInt(n, 10)\<close> and \<open>strconv.Itoa\<close>, of the Go
  standard library: the decimal digits, most significant first, after a minus sign when
  the number is negative.\<close>

definition digit :: "nat \<Rightarrow> char" where
  "digit d = char_of (48 + d)"

fun FormatUint :: "nat \<Rightarrow> string" where
  "FormatUint n = (if n < 10 then [digit n] else FormatUint (n div 10) @ [digit (n mod 10)])"

declare FormatUint.simps [simp del]

definition FormatInt :: "int \<Rightarrow> string" where
  "FormatInt i = (if i < 0 then CHR ''-'' # FormatUint (nat (- i)) else FormatUint (nat i))"

definition Itoa :: "nat \<Rightarrow> string" where
  "Itoa n = FormatUint n"

section \<open>The header scrubber\<close>

text \<open>
  The names that are never forwarded. \<open>heat.BodySize\<close> is a signed 64-bit integer; no
  arithmetic is done on it here, so it is an \<^typ>\<open>int\<close>. Negative sizes stand for a body
  whose length is not known in advance.
\<close>

type_synonym BodySize = int

definition blacklist :: "string list" where
  "blacklist =
     [''Connection'', ''Keep-Alive'', ''Public'', ''Proxy-Authenticate'',
      ''Proxy-Authorization'', ''TE'', ''Trailers'', ''Transfer-Encoding'', ''Upgrade'',
      ''Proxy-Connection'',
      ''Content-Length'']"

text \<open>The callback handed to \<open>Filter\<close>: two loops, each returning false at the first
  name that the field carries.\<close>

fun is_any :: "Field \<Rightarrow> string list \<Rightarrow> bool" where
  "is_any f [] = False"
| "is_any f (name # names) = (if Is f name then True else is_any f names)"

definition forwardable :: "string list \<Rightarrow> Field \<Rightarrow> bool" where
  "forwardable tokens f =
     (if is_any f blacklist then False else if is_any f tokens then False else True)"

definition scrubHeaderFields :: "Fields \<Rightarrow> BodySize \<Rightarrow> Fields" where
  "scrubHeaderFields fs sz =
     (let tokens = Split fs ''Connection'' (CHR '','');
          fs1 = Filter fs (forwardable tokens)
      in if sz \<ge> 0 then Add fs1 ''Content-Length'' (FormatInt sz)
         else Add fs1 ''Transfer-Encoding'' ''chunked'')"

section \<open>Errors, requests and responses\<close>

text \<open>
  Go errors are compared by identity. The loop tells apart the two sentinels of the header
  parser, \<open>io.EOF\<close> and the marker of the body reader; \<open>Err msg\<close> is any other error.
\<close>

datatype error = EOF | ErrRequestHeader | ErrRequestVersion | errReadAfterClose | Err string

text \<open>
  The body reader wraps the stream of a request body and remembers the error that ended
  it. Its field \<open>r\<close>, the wrapped stream, belongs to the connection: what that stream
  answers is given with each call (\<open>CallRead n err\<close>: a \<open>Read\<close> during which the wrapped
  stream, if it is consulted, returns \<open>n\<close> bytes and \<open>err\<close>).
\<close>

record bodyReader =
  br_e :: "error option"

definition Read :: "bodyReader \<Rightarrow> nat \<Rightarrow> error option \<Rightarrow> (nat \<times> error option) \<times> bodyReader" where
  "Read br n err =
     (case br_e br of
        Some e \<Rightarrow> ((0, Some e), br)
      | None \<Rightarrow>
          (case err of
             None \<Rightarrow> ((n, None), br)
           | Some x \<Rightarrow> ((n, if n > 0 then None else Some x), br\<lparr>br_e := Some x\<rparr>)))"

definition Close :: "bodyReader \<Rightarrow> bodyReader" where
  "Close br = (if br_e br \<noteq> None then br\<lparr>br_e := Some errReadAfterClose\<rparr> else br)"

definition LastError :: "bodyReader \<Rightarrow> error option" where
  "LastError br = (if br_e br = Some errReadAfterClose then None else br_e br)"

datatype body_call = CallRead nat "error option" | CallClose

fun run_calls :: "body_call list \<Rightarrow> bodyReader \<Rightarrow> bodyReader" where
  "run_calls [] br = br"
| "run_calls (CallRead n err # cs) br = run_calls cs (snd (Read br n err))"
| "run_calls (CallClose # cs) br = run_calls cs (Close br)"

text \<open>
  A request. Its body, when it has one, is the body reader that \<open>readRequest\<close> returns
  beside it: \<open>req.Body\<close> and \<open>body\<close> are one object, which the model passes along
  with the request.
\<close>

record Request =
  reqMethod :: string
  reqURI :: string
  reqMajor :: int
  reqMinor :: int
  reqFields :: Fields
  reqScheme :: string
  reqRemote :: string

record Response =
  respStatus :: int
  respReason :: string
  respMajor :: int
  respMinor :: int
  respFields :: Fields
  respBody :: "string option"

record URL =
  urlScheme :: string
  urlHost :: string
  urlRequestURI :: string

definition IsAbs :: "URL \<Rightarrow> bool" where
  "IsAbs u = (urlScheme u \<noteq> [])"

section \<open>Certificates\<close>

datatype KeyUsage = KeyUsageDigitalSignature | KeyUsageKeyEncipherment

datatype ExtKeyUsage = ExtKeyUsageServerAuth

record x509Certificate =
  SerialNumber :: nat
  Subject :: string
  NotBefore :: int
  NotAfter :: int
  KeyUsage :: "KeyUsage list"
  ExtKeyUsage :: "ExtKeyUsage list"
  BasicConstraintsValid :: bool
  IPAddresses :: "string list"
  DNSNames :: "string list"

record rsaPrivateKey =
  PublicKey :: string
  Secret :: string

record tlsCertificate =
  Certificate :: "string list"
  PrivateKey :: rsaPrivateKey

text \<open>The deterministic byte source of the forger; its state is a byte string.\<close>

record inf_rng =
  rng_state :: string

section \<open>What the proxy is given\<close>

text \<open>
  The functions of the HTTP library and of the Go standard library that the proxy calls
  are parameters of the model: every theorem below holds whatever they compute.
  \<open>GenerateKey\<close> and \<open>CreateCertificate\<close> draw from the byte source they are handed and
  leave it advanced.
\<close>

record lib =
  ErrorText :: "error \<Rightarrow> string"
  ReasonPhrase :: "int \<Rightarrow> string"
  RequestBodySize :: "Request \<Rightarrow> error + BodySize"
  ResponseBodySize :: "Response \<Rightarrow> string \<Rightarrow> error + BodySize"
  Closing :: "int \<Rightarrow> int \<Rightarrow> Fields \<Rightarrow> bool"
  ParseRequestURI :: "string \<Rightarrow> error + URL"
  SplitHostPort :: "string \<Rightarrow> error + (string \<times> string)"
  ParseCertificate :: "string \<Rightarrow> error + x509Certificate"
  Sum256 :: "string \<Rightarrow> string"
  ParseIP :: "string \<Rightarrow> string option"
  GenerateKey :: "inf_rng \<Rightarrow> nat \<Rightarrow> (error + rsaPrivateKey) \<times> inf_rng"
  CreateCertificate ::
    "inf_rng \<Rightarrow> x509Certificate \<Rightarrow> x509Certificate \<Rightarrow> string \<Rightarrow> rsaPrivateKey
      \<Rightarrow> (error + string) \<times> inf_rng"

text \<open>
  The round-trip callable answers a request with a response or an error, and while it runs
  it may read and close the request body; \<open>fst (RoundTrip p req)\<close> lists those calls in
  order. A nil error comes with a response.
\<close>

record Proxy =
  Authority :: "tlsCertificate option"
  RoundTrip :: "Request \<Rightarrow> body_call list \<times> (error + Response)"

section \<open>Reading requests and writing responses\<close>

text \<open>Modelled from the spec: \<open>heat.NewResponse\<close>, of the HTTP library, a response with
  the given status line, no fields and no body.\<close>

definition NewResponse :: "int \<Rightarrow> string \<Rightarrow> Response" where
  "NewResponse status reason =
     \<lparr>respStatus = status, respReason = reason, respMajor = 1, respMinor = 1,
      respFields = [], respBody = None\<rparr>"

text \<open>\<open>statusResponse\<close>; its second argument is the message after formatting.\<close>

definition statusResponse :: "lib \<Rightarrow> int \<Rightarrow> string \<Rightarrow> Response" where
  "statusResponse L status body =
     (let resp = NewResponse status (ReasonPhrase L status);
          resp = resp\<lparr>respFields := SetField (respFields resp) ''Connection'' ''close''\<rparr>;
          resp = resp\<lparr>respFields :=
                   SetField (respFields resp) ''Content-Type'' ''text/plain; charset=utf-8''\<rparr>;
          resp = resp\<lparr>respFields :=
                   SetField (respFields resp) ''Content-Length'' (Itoa (length body))\<rparr>
      in resp\<lparr>respBody := Some body\<rparr>)"

text \<open>
  \<open>readRequest\<close> returns the three values of the source: the request, the body reader and
  the error, the first two nil whenever the third is not. Its argument is what
  \<open>heat.ReadRequestHeader\<close> found on the connection.
\<close>

definition readRequest ::
  "lib \<Rightarrow> error + Request \<Rightarrow> Request option \<times> bodyReader option \<times> error option" where
  "readRequest L hdr =
     (case hdr of
        Inl err \<Rightarrow> (None, None, Some err)
      | Inr req \<Rightarrow>
          (case RequestBodySize L req of
             Inl err \<Rightarrow> (None, None, Some err)
           | Inr sz \<Rightarrow>
               if sz \<noteq> 0 then (Some req, Some \<lparr>br_e = None\<rparr>, None)
               else (Some req, None, None)))"

text \<open>
  What happens on a connection is recorded as a list of events. \<open>Wrote resp io\<close>: the
  response went to the writer, and \<open>io\<close> is the first error of its writes and flushes, if
  any (\<open>None\<close>: the client has the whole response). \<open>Upstream req\<close>: the round-trip
  callable was invoked with this request.
\<close>

datatype event =
    Wrote Response "error option"
  | Upstream Request
  | Forged string
  | TunnelReady
  | Handshake

definition writeResponse ::
  "lib \<Rightarrow> error option \<Rightarrow> Response \<Rightarrow> string \<Rightarrow> event list \<times> error option" where
  "writeResponse L io resp method =
     (case ResponseBodySize L resp method of
        Inl err \<Rightarrow> ([], Some err)
      | Inr sz \<Rightarrow> ([Wrote resp io], io))"

section \<open>Forwarding a plain request\<close>

definition scrubRequest :: "lib \<Rightarrow> Request \<Rightarrow> Request \<times> error option" where
  "scrubRequest L req =
     (let req = req\<lparr>reqMajor := 1, reqMinor := 1\<rparr>
      in case RequestBodySize L req of
           Inl err \<Rightarrow> (req, Some err)
         | Inr sz \<Rightarrow> (req\<lparr>reqFields := scrubHeaderFields (reqFields req) sz\<rparr>, None))"

definition scrubResponse :: "lib \<Rightarrow> Response \<Rightarrow> string \<Rightarrow> Response \<times> error option" where
  "scrubResponse L resp method =
     (let resp = resp\<lparr>respMajor := 1, respMinor := 1\<rparr>
      in case ResponseBodySize L resp method of
           Inl err \<Rightarrow> (resp, Some err)
         | Inr sz \<Rightarrow> (resp\<lparr>respFields := scrubHeaderFields (respFields resp) sz\<rparr>, None))"

text \<open>
  \<open>Proxy.proxy\<close> returns a response and an error. The request is changed in place and the
  callable works on the body, so the model also returns both as they are afterwards, and
  the events.
\<close>

definition proxy ::
  "lib \<Rightarrow> Proxy \<Rightarrow> Request \<Rightarrow> bodyReader option
    \<Rightarrow> (Response \<times> error option) \<times> Request \<times> bodyReader option \<times> event list" where
  "proxy L p req body =
     (case ParseRequestURI L (reqURI req) of
        Inl err \<Rightarrow> ((statusResponse L 400 ''Invalid URI in request.'', None), req, body, [])
      | Inr u \<Rightarrow>
          if \<not> IsAbs u
          then ((statusResponse L 400 ''Request URI must be absolute.'', None), req, body, [])
          else
            (case scrubRequest L req of
               (req, Some err) \<Rightarrow>
                 ((statusResponse L 500 ''Could not scrub request.'', None), req, body, [])
             | (req, None) \<Rightarrow>
                 (let req = req\<lparr>reqURI := urlRequestURI u, reqScheme := urlScheme u,
                                 reqRemote := urlHost u\<rparr>;
                      (calls, res) = RoundTrip p req;
                      body = map_option (run_calls calls) body
                  in case res of
                       Inl err \<Rightarrow>
                         ((statusResponse L 500
                             (''Round-trip to upstream failed: '' @ ErrorText L err @ ''.''),
                           None), req, body, [Upstream req])
                     | Inr resp \<Rightarrow>
                         (case scrubResponse L resp (reqMethod req) of
                            (resp, Some err) \<Rightarrow>
                              ((statusResponse L 500 ''Could not scrub response.'', None),
                               req, body, [Upstream req])
                          | (resp, None) \<Rightarrow> ((resp, None), req, body, [Upstream req])))))"

section \<open>The connection loop for plain HTTP\<close>

text \<open>
  One turn of a connection: what the header parser finds next on it, and how the writes of
  the answer will go. A loop ends by returning (an error or nil) or by a nil dereference;
  over a finite list of turns it may also be left waiting for the next request.
\<close>

record turn =
  header :: "error + Request"
  io :: "error option"

datatype result = Returned "error option" | Panicked | Blocked

datatype step = Next "event list" | Stop result "event list"

text \<open>
  The end of a turn, the same in both loops: decide whether the connection stays open, set
  the \<open>Connection\<close> field of the response to match, write the response, and stop unless
  the connection stays open. \<open>body\<close> is the body reader as the dispatch left it.
\<close>

definition ended_cleanly :: "bodyReader option \<Rightarrow> bool" where
  "ended_cleanly body = (case body of None \<Rightarrow> True | Some b \<Rightarrow> LastError b = Some EOF)"

definition decide :: "bool \<Rightarrow> bodyReader option \<Rightarrow> Response \<Rightarrow> Response \<times> bool" where
  "decide closing body resp =
     (if \<not> closing \<and> ended_cleanly body
      then (resp\<lparr>respFields := SetField (respFields resp) ''Connection'' ''keep-alive''\<rparr>,
            closing)
      else (resp\<lparr>respFields := SetField (respFields resp) ''Connection'' ''close''\<rparr>, True))"

definition respond ::
  "lib \<Rightarrow> error option \<Rightarrow> bool \<Rightarrow> bodyReader option \<Rightarrow> Response \<Rightarrow> string \<Rightarrow> event list
    \<Rightarrow> step" where
  "respond L wio closing body resp method evs =
     (let (resp, closing) = decide closing body resp;
          (wevs, werr) = writeResponse L wio resp method
      in if werr \<noteq> None then Stop (Returned werr) (evs @ wevs)
         else if closing then Stop (Returned None) (evs @ wevs)
         else Next (evs @ wevs))"

text \<open>
  The answer to a request whose header could not be read. The source takes the method
  from \<open>req\<close>, which is nil here.
\<close>

definition reject :: "lib \<Rightarrow> error option \<Rightarrow> Request option \<Rightarrow> Response \<Rightarrow> step" where
  "reject L wio req resp =
     (case req of
        None \<Rightarrow> Stop Panicked []
      | Some r \<Rightarrow> (let (evs, err) = writeResponse L wio resp (reqMethod r)
                  in Stop (Returned err) evs))"

definition serveHTTP_step :: "lib \<Rightarrow> Proxy \<Rightarrow> turn \<Rightarrow> step" where
  "serveHTTP_step L p t =
     (case readRequest L (header t) of
        (req, body, Some err) \<Rightarrow>
          if err = ErrRequestHeader
          then reject L (io t) req (statusResponse L 404 ''Malformed HTTP request header.'')
          else if err = ErrRequestVersion
          then reject L (io t) req (statusResponse L 505 ''Unsupported HTTP version number.'')
          else if err = EOF then Stop (Returned None) []
          else Stop (Returned (Some err)) []
      | (None, body, None) \<Rightarrow> Stop Panicked []
      | (Some req, body, None) \<Rightarrow>
          if reqMethod req = ''CONNECT'' then Stop (Returned None) []
          else
            (let closing = Closing L (reqMajor req) (reqMinor req) (reqFields req);
                 ((resp, err), req, body, evs) = proxy L p req body
             in case err of
                  Some e \<Rightarrow>
                    (let resp = statusResponse L 500 (''Unknown error: '' @ ErrorText L e @ ''.'');
                         (wevs, werr) = writeResponse L (io t) resp (reqMethod req)
                     in Stop (Returned werr) (evs @ wevs))
                | None \<Rightarrow> respond L (io t) closing body resp (reqMethod req) evs))"

fun run_loop :: "(turn \<Rightarrow> step) \<Rightarrow> turn list \<Rightarrow> result \<times> event list" where
  "run_loop body [] = (Blocked, [])"
| "run_loop body (t # ts) =
     (case body t of
        Stop r evs \<Rightarrow> (r, evs)
      | Next evs \<Rightarrow> (let (r, evs') = run_loop body ts in (r, evs @ evs')))"

definition serveHTTP :: "lib \<Rightarrow> Proxy \<Rightarrow> turn list \<Rightarrow> result \<times> event list" where
  "serveHTTP L p ts = run_loop (serveHTTP_step L p) ts"

definition Serve :: "lib \<Rightarrow> Proxy \<Rightarrow> turn list \<Rightarrow> result \<times> event list" where
  "Serve L p ts = serveHTTP L p ts"

section \<open>The loop inside a tunnel\<close>

text \<open>
  \<open>Proxy.forward\<close> closes the request body when it returns (the deferred call), after the
  callable has run. It returns a nil response beside an error.
\<close>

definition forward ::
  "lib \<Rightarrow> Proxy \<Rightarrow> Request \<Rightarrow> bodyReader option
    \<Rightarrow> (Response option \<times> error option) \<times> Request \<times> bodyReader option \<times> event list" where
  "forward L p req body =
     (let isKeepAlive = \<not> Closing L (reqMajor req) (reqMinor req) (reqFields req);
          req = req\<lparr>reqFields := SetField (reqFields req) ''Connection'' ''keep-alive''\<rparr>;
          (calls, res) = RoundTrip p req;
          body = map_option (run_calls calls) body;
          body = map_option Close body
      in case res of
           Inl err \<Rightarrow> ((None, Some err), req, body, [Upstream req])
         | Inr resp \<Rightarrow>
             (let resp =
                    (if \<not> isKeepAlive
                     then resp\<lparr>respFields := SetField (respFields resp) ''Connection'' ''close''\<rparr>
                     else resp\<lparr>respFields :=
                                 SetField (respFields resp) ''Connection'' ''keep-alive''\<rparr>)
              in ((Some resp, None), req, body, [Upstream req])))"

definition serveHTTPS_step :: "lib \<Rightarrow> Proxy \<Rightarrow> string \<Rightarrow> turn \<Rightarrow> step" where
  "serveHTTPS_step L p addr t =
     (case readRequest L (header t) of
        (req, body, Some err) \<Rightarrow>
          if err = ErrRequestHeader
          then reject L (io t) req (statusResponse L 404 ''Malformed HTTP request header.'')
          else if err = ErrRequestVersion
          then reject L (io t) req (statusResponse L 505 ''Unsupported HTTP version number.'')
          else if err = EOF then Stop (Returned None) []
          else Stop (Returned (Some err)) []
      | (None, body, None) \<Rightarrow> Stop Panicked []
      | (Some req, body, None) \<Rightarrow>
          (let req = req\<lparr>reqScheme := ''https'', reqRemote := addr\<rparr>;
               closing = Closing L (reqMajor req) (reqMinor req) (reqFields req);
               ((resp, err), req, body, evs) = forward L p req body;
               resp = (case err of
                         Some e \<Rightarrow>
                           Some (statusResponse L 500
                                   (''Round-trip to upstream failed: '' @ ErrorText L e @ ''.''))
                       | None \<Rightarrow> resp)
           in case resp of
                None \<Rightarrow> Stop Panicked evs
              | Some resp \<Rightarrow> respond L (io t) closing body resp (reqMethod req) evs))"

definition serveHTTPS :: "lib \<Rightarrow> Proxy \<Rightarrow> string \<Rightarrow> turn list \<Rightarrow> result \<times> event list" where
  "serveHTTPS L p addr ts = run_loop (serveHTTPS_step L p addr) ts"

section \<open>Forging a certificate\<close>

text \<open>Modelled from the spec: \<open>big.Int.SetBytes\<close>, of the Go standard library, reads a
  byte string as a number, first byte first, each byte shifting the number by eight
  bits.\<close>

definition SetBytes :: "string \<Rightarrow> nat" where
  "SetBytes bs = foldl (\<lambda>a b. a * 256 + of_char b) 0 bs"

text \<open>The same number in the words of the specification: the big-endian unsigned
  integer, byte \<open>i\<close> of \<open>n\<close> weighing \<open>256 ^ (n - 1 - i)\<close>.\<close>

definition big_endian :: "string \<Rightarrow> nat" where
  "big_endian bs = (\<Sum>i < length bs. of_char (bs ! i) * 256 ^ (length bs - 1 - i))"

text \<open>The template of the leaf, as \<open>forge\<close> fills it in from the parsed authority
  certificate and the host name.\<close>

definition forge_template :: "lib \<Rightarrow> x509Certificate \<Rightarrow> string \<Rightarrow> x509Certificate" where
  "forge_template L x509ca host =
     (let seed = Sum256 L host;
          serial = SetBytes seed;
          template =
            \<lparr>SerialNumber = serial, Subject = Subject x509ca,
             NotBefore = NotBefore x509ca, NotAfter = NotAfter x509ca,
             KeyUsage = [KeyUsageKeyEncipherment, KeyUsageDigitalSignature],
             ExtKeyUsage = [ExtKeyUsageServerAuth],
             BasicConstraintsValid = True, IPAddresses = [], DNSNames = []\<rparr>
      in case ParseIP L host of
           Some ip \<Rightarrow> template\<lparr>IPAddresses := [ip]\<rparr>
         | None \<Rightarrow> template\<lparr>DNSNames := [host]\<rparr>)"

text \<open>\<open>forge\<close> takes the first certificate of the authority without a check, so it panics
  where there is none; \<open>connect\<close> checks before it calls.\<close>

datatype forged = ForgePanic | ForgeErr error | ForgeOK tlsCertificate

definition forge :: "lib \<Rightarrow> Proxy \<Rightarrow> string \<Rightarrow> forged" where
  "forge L p host =
     (case Authority p of
        None \<Rightarrow> ForgePanic
      | Some a \<Rightarrow>
          (case Certificate a of
             [] \<Rightarrow> ForgePanic
           | ca # _ \<Rightarrow>
               (case ParseCertificate L ca of
                  Inl err \<Rightarrow> ForgeErr err
                | Inr x509ca \<Rightarrow>
                    (let seed = Sum256 L host;
                         template = forge_template L x509ca host;
                         rng = \<lparr>rng_state = seed\<rparr>
                     in case GenerateKey L rng 2048 of
                          (Inl err, rng) \<Rightarrow> ForgeErr err
                        | (Inr key, rng) \<Rightarrow>
                            (case CreateCertificate L rng template x509ca (PublicKey key)
                                    (PrivateKey a) of
                               (Inl err, rng) \<Rightarrow> ForgeErr err
                             | (Inr der, rng) \<Rightarrow>
                                 ForgeOK \<lparr>Certificate = [der, ca], PrivateKey = key\<rparr>)))))"

section \<open>CONNECT\<close>

text \<open>
  What the connection does while a tunnel is set up: the bytes already buffered behind the
  request, the outcome of writing and flushing the line that announces the tunnel, the
  outcome of the TLS handshake, and the turns of the session inside.
\<close>

record tunnel =
  peek :: "error + string"
  write200 :: "error option"
  flush200 :: "error option"
  handshake :: "error option"
  session :: "turn list"

definition refuse :: "lib \<Rightarrow> error option \<Rightarrow> Response \<Rightarrow> Request \<Rightarrow> result \<times> event list" where
  "refuse L wio resp req =
     (let (evs, err) = writeResponse L wio resp (reqMethod req) in (Returned err, evs))"

definition connect ::
  "lib \<Rightarrow> Proxy \<Rightarrow> error option \<Rightarrow> tunnel \<Rightarrow> Request \<Rightarrow> result \<times> event list" where
  "connect L p wio tn req =
     (if Authority p = None \<or> (case Authority p of Some a \<Rightarrow> Certificate a = [] | None \<Rightarrow> True)
      then refuse L wio
             (statusResponse L 500
                (''Can't serve CONNECT requests without Proxy.Authority.%!(EXTRA string=''
                   @ reqURI req @ '')'')) req
      else
        (case SplitHostPort L (reqURI req) of
           Inl err \<Rightarrow>
             refuse L wio
               (statusResponse L 400 (''Invalid CONNECT address: '' @ reqURI req @ ''.'')) req
         | Inr (host, port) \<Rightarrow>
             if port \<noteq> ''443''
             then refuse L wio
                    (statusResponse L 400 (''Invalid CONNECT address: '' @ reqURI req @ ''.''))
                    req
             else
               (case forge L p host of
                  ForgePanic \<Rightarrow> (Panicked, [])
                | ForgeErr err \<Rightarrow>
                    refuse L wio
                      (statusResponse L 500
                         (''Error when signing SSL certificate: '' @ ErrorText L err @ ''.''))
                      req
                | ForgeOK cert \<Rightarrow>
                    (case peek tn of
                       Inl err \<Rightarrow>
                         (let (r, evs) =
                                refuse L wio
                                  (statusResponse L 500
                                     (''Internal error: '' @ ErrorText L err @ ''.'')) req
                          in (r, Forged host # evs))
                     | Inr buffered \<Rightarrow>
                         if write200 tn \<noteq> None then (Returned (write200 tn), [Forged host])
                         else if flush200 tn \<noteq> None then (Returned (flush200 tn), [Forged host])
                         else if handshake tn \<noteq> None
                         then (Returned (handshake tn), [Forged host, TunnelReady])
                         else
                           (let (r, evs) = serveHTTPS L p (reqURI req) (session tn)
                            in (r, [Forged host, TunnelReady, Handshake] @ evs))))))"

section \<open>Reading a run\<close>

definition events_of :: "step \<Rightarrow> event list" where
  "events_of s = (case s of Next evs \<Rightarrow> evs | Stop r evs \<Rightarrow> evs)"

text \<open>The loop goes on to read the next request.\<close>

definition continues :: "step \<Rightarrow> bool" where
  "continues s = (case s of Next evs \<Rightarrow> True | Stop r evs \<Rightarrow> False)"

text \<open>The responses that reached the client whole, and the requests that were handed to
  the round-trip callable.\<close>

fun sent :: "event list \<Rightarrow> Response list" where
  "sent [] = []"
| "sent (Wrote r None # evs) = r # sent evs"
| "sent (ev # evs) = sent evs"

fun upstream :: "event list \<Rightarrow> Request list" where
  "upstream [] = []"
| "upstream (Upstream r # evs) = r # upstream evs"
| "upstream (ev # evs) = upstream evs"

text \<open>The \<open>Connection\<close> values of a response and of a request, and the body reader as a
  dispatch (\<open>proxy\<close> or \<open>forward\<close>) leaves it.\<close>

definition connection_header :: "Response \<Rightarrow> string list" where
  "connection_header resp = values_of (respFields resp) ''Connection''"

definition request_connection :: "Request \<Rightarrow> string list" where
  "request_connection req = values_of (reqFields req) ''Connection''"

definition body_after ::
  "'a \<times> Request \<times> bodyReader option \<times> event list \<Rightarrow> bodyReader option" where
  "body_after out = fst (snd (snd out))"

section \<open>A concrete setting\<close>

text \<open>
  To run the model on examples, the library functions are given simple stand-ins: enough
  of HTTP and of URLs for the requests below, and toy cryptography (\<open>ex_Sum256\<close> pads or
  cuts its input to 32 bytes; it is not SHA-256).
\<close>

definition ex_ErrorText :: "error \<Rightarrow> string" where
  "ex_ErrorText e =
     (case e of
        EOF \<Rightarrow> ''EOF''
      | ErrRequestHeader \<Rightarrow> ''malformed request header''
      | ErrRequestVersion \<Rightarrow> ''unsupported version''
      | errReadAfterClose \<Rightarrow> ''relay: read after close''
      | Err msg \<Rightarrow> msg)"

definition ex_ReasonPhrase :: "int \<Rightarrow> string" where
  "ex_ReasonPhrase status =
     (if status = 200 then ''OK''
      else if status = 400 then ''Bad Request''
      else if status = 404 then ''Not Found''
      else if status = 500 then ''Internal Server Error''
      else if status = 505 then ''HTTP Version Not Supported''
      else [])"

fun atoi :: "nat \<Rightarrow> string \<Rightarrow> nat option" where
  "atoi acc [] = Some acc"
| "atoi acc (c # cs) =
     (let d = (of_char c :: nat)
      in if 48 \<le> d \<and> d \<le> 57 then atoi (acc * 10 + (d - 48)) cs else None)"

definition ex_BodySize :: "Fields \<Rightarrow> error + BodySize" where
  "ex_BodySize fs =
     (if values_of fs ''Transfer-Encoding'' \<noteq> [] then Inr (- 1)
      else case values_of fs ''Content-Length'' of
             [] \<Rightarrow> Inr 0
           | v # _ \<Rightarrow> (case atoi 0 v of
                         None \<Rightarrow> Inl (Err ''invalid content length'')
                       | Some n \<Rightarrow> Inr (int n)))"

definition ex_ResponseBodySize :: "Response \<Rightarrow> string \<Rightarrow> error + BodySize" where
  "ex_ResponseBodySize resp method =
     (if method = ''HEAD'' then Inr 0 else ex_BodySize (respFields resp))"

definition ex_Closing :: "int \<Rightarrow> int \<Rightarrow> Fields \<Rightarrow> bool" where
  "ex_Closing major minor fs =
     (let tokens = map (map lower) (Split fs ''Connection'' (CHR '',''))
      in if ''close'' \<in> set tokens then True
         else if major = 1 \<and> minor = 0 then ''keep-alive'' \<notin> set tokens
         else False)"

definition ex_ParseRequestURI :: "string \<Rightarrow> error + URL" where
  "ex_ParseRequestURI uri =
     (if take 7 uri = ''http://''
      then (let rest = drop 7 uri;
                path = dropWhile (\<lambda>c. c \<noteq> CHR ''/'') rest
            in Inr \<lparr>urlScheme = ''http'',
                    urlHost = takeWhile (\<lambda>c. c \<noteq> CHR ''/'') rest,
                    urlRequestURI = (if path = [] then ''/'' else path)\<rparr>)
      else if take 1 uri = ''/''
      then Inr \<lparr>urlScheme = [], urlHost = [], urlRequestURI = uri\<rparr>
      else Inl (Err ''invalid URI for request''))"

definition ex_SplitHostPort :: "string \<Rightarrow> error + (string \<times> string)" where
  "ex_SplitHostPort hostport =
     (if CHR '':'' \<notin> set hostport then Inl (Err ''missing port in address'')
      else Inr (rev (drop 1 (dropWhile (\<lambda>c. c \<noteq> CHR '':'') (rev hostport))),
                rev (takeWhile (\<lambda>c. c \<noteq> CHR '':'') (rev hostport))))"

definition ex_ParseCertificate :: "string \<Rightarrow> error + x509Certificate" where
  "ex_ParseCertificate der =
     (if der = [] then Inl (Err ''malformed certificate'')
      else Inr \<lparr>SerialNumber = 1, Subject = der, NotBefore = 0, NotAfter = 1000,
                KeyUsage = [], ExtKeyUsage = [], BasicConstraintsValid = True,
                IPAddresses = [], DNSNames = []\<rparr>)"

definition ex_Sum256 :: "string \<Rightarrow> string" where
  "ex_Sum256 bs = take 32 (bs @ replicate 32 (CHR 0x00))"

definition ex_ParseIP :: "string \<Rightarrow> string option" where
  "ex_ParseIP host =
     (if host = ''127.0.0.1'' then Some [CHR 0x7F, CHR 0x00, CHR 0x00, CHR 0x01] else None)"

definition ex_GenerateKey :: "inf_rng \<Rightarrow> nat \<Rightarrow> (error + rsaPrivateKey) \<times> inf_rng" where
  "ex_GenerateKey rng bits =
     (Inr \<lparr>PublicKey = ''public '' @ rng_state rng, Secret = ''secret '' @ rng_state rng\<rparr>,
      \<lparr>rng_state = ex_Sum256 (rev (rng_state rng))\<rparr>)"

definition ex_CreateCertificate ::
  "inf_rng \<Rightarrow> x509Certificate \<Rightarrow> x509Certificate \<Rightarrow> string \<Rightarrow> rsaPrivateKey
    \<Rightarrow> (error + string) \<times> inf_rng" where
  "ex_CreateCertificate rng template parent pub priv =
     (Inr (''leaf '' @ concat (DNSNames template) @ concat (IPAddresses template)), rng)"

definition ex_lib :: lib where
  "ex_lib =
     \<lparr>ErrorText = ex_ErrorText, ReasonPhrase = ex_ReasonPhrase,
      RequestBodySize = (\<lambda>req. ex_BodySize (reqFields req)),
      ResponseBodySize = ex_ResponseBodySize, Closing = ex_Closing,
      ParseRequestURI = ex_ParseRequestURI, SplitHostPort = ex_SplitHostPort,
      ParseCertificate = ex_ParseCertificate, Sum256 = ex_Sum256, ParseIP = ex_ParseIP,
      GenerateKey = ex_GenerateKey, CreateCertificate = ex_CreateCertificate\<rparr>"

text \<open>A client's \<open>GET http://x.example/a HTTP/1.1\<close> with a \<open>Host\<close> field and no body, on a
  connection whose writes succeed; the same as a \<open>POST\<close> with a five-byte body; a
  \<open>CONNECT\<close>; a request whose \<open>Content-Length\<close> is not a number; and a header that does
  not parse.\<close>

definition ex_get :: Request where
  "ex_get =
     \<lparr>reqMethod = ''GET'', reqURI = ''http://x.example/a'', reqMajor = 1, reqMinor = 1,
      reqFields = [\<lparr>Name = ''Host'', Value = ''x.example''\<rparr>],
      reqScheme = [], reqRemote = []\<rparr>"

definition ex_post :: Request where
  "ex_post =
     \<lparr>reqMethod = ''POST'', reqURI = ''http://x.example/a'', reqMajor = 1, reqMinor = 1,
      reqFields = [\<lparr>Name = ''Host'', Value = ''x.example''\<rparr>,
                   \<lparr>Name = ''Content-Length'', Value = ''5''\<rparr>],
      reqScheme = [], reqRemote = []\<rparr>"

definition ex_connect :: Request where
  "ex_connect =
     \<lparr>reqMethod = ''CONNECT'', reqURI = ''example.com:443'', reqMajor = 1, reqMinor = 1,
      reqFields = [], reqScheme = [], reqRemote = []\<rparr>"

definition ex_bad_length :: Request where
  "ex_bad_length = ex_get\<lparr>reqFields := [\<lparr>Name = ''Content-Length'', Value = ''x''\<rparr>]\<rparr>"

definition turn_of :: "Request \<Rightarrow> turn" where
  "turn_of req = \<lparr>header = Inr req, io = None\<rparr>"

definition ex_malformed :: turn where
  "ex_malformed = \<lparr>header = Inl ErrRequestHeader, io = None\<rparr>"

text \<open>Three upstreams: one that reads the body to its end and answers \<open>200 OK\<close> with an
  empty body, one that answers without touching the body, one that fails.\<close>

definition ex_ok :: Response where
  "ex_ok =
     \<lparr>respStatus = 200, respReason = ''OK'', respMajor = 1, respMinor = 1,
      respFields = [\<lparr>Name = ''Content-Length'', Value = ''0''\<rparr>], respBody = Some []\<rparr>"

definition ex_proxy :: Proxy where
  "ex_proxy = \<lparr>Authority = None, RoundTrip = (\<lambda>req. ([CallRead 5 (Some EOF)], Inr ex_ok))\<rparr>"

definition ex_lazy :: Proxy where
  "ex_lazy = \<lparr>Authority = None, RoundTrip = (\<lambda>req. ([], Inr ex_ok))\<rparr>"

definition ex_failing :: Proxy where
  "ex_failing =
     \<lparr>Authority = None, RoundTrip = (\<lambda>req. ([], Inl (Err ''connection refused'')))\<rparr>"

text \<open>Header fields that ask for two hop-by-hop removals: \<open>Connection\<close> itself and the
  field it names.\<close>

definition ex_fields :: Fields where
  "ex_fields =
     [\<lparr>Name = ''connection'', Value = ''X-Custom, close''\<rparr>,
      \<lparr>Name = ''X-Custom'', Value = ''v''\<rparr>,
      \<lparr>Name = ''Host'', Value = ''x.example''\<rparr>]"

text \<open>Two more upstreams: one whose answer has a \<open>Content-Length\<close> that is not a number,
  and one behind a proxy that has an authority (a certificate and a key).\<close>

definition ex_garbled :: Proxy where
  "ex_garbled =
     \<lparr>Authority = None,
      RoundTrip =
        (\<lambda>req. ([], Inr (ex_ok\<lparr>respFields := [\<lparr>Name = ''Content-Length'', Value = ''x''\<rparr>]\<rparr>)))\<rparr>"

definition ex_key :: rsaPrivateKey where
  "ex_key = \<lparr>PublicKey = ''authority public key'', Secret = ''authority secret key''\<rparr>"

definition ex_mitm :: Proxy where
  "ex_mitm =
     \<lparr>Authority = Some \<lparr>Certificate = [''Example CA''], PrivateKey = ex_key\<rparr>,
      RoundTrip = (\<lambda>req. ([], Inr ex_ok))\<rparr>"

text \<open>The certificate that the toy cryptography forges for a host whose alternative name
  has the bytes \<open>san\<close>.\<close>

definition ex_leaf :: "string \<Rightarrow> string \<Rightarrow> tlsCertificate" where
  "ex_leaf host san =
     \<lparr>Certificate = [''leaf '' @ san, ''Example CA''],
      PrivateKey = \<lparr>PublicKey = ''public '' @ ex_Sum256 host,
                    Secret = ''secret '' @ ex_Sum256 host\<rparr>\<rparr>"

text \<open>What these runs are expected to produce: the example requests as they reach the
  upstream on the plain path and inside a tunnel to \<open>x.example:443\<close>, the answer of the
  upstream as the client gets it, and the status response for the failing upstream.\<close>

definition ex_forwarded :: "Request \<Rightarrow> string \<Rightarrow> Request" where
  "ex_forwarded req len =
     req\<lparr>reqURI := ''/a'', reqScheme := ''http'', reqRemote := ''x.example'',
         reqFields := [\<lparr>Name = ''Host'', Value = ''x.example''\<rparr>,
                       \<lparr>Name = ''Content-Length'', Value = len\<rparr>]\<rparr>"

definition ex_tunnelled :: "Request \<Rightarrow> Request" where
  "ex_tunnelled req =
     req\<lparr>reqScheme := ''https'', reqRemote := ''x.example:443'',
         reqFields := reqFields req @ [\<lparr>Name = ''Connection'', Value = ''keep-alive''\<rparr>]\<rparr>"

definition ex_answer :: "string \<Rightarrow> Response" where
  "ex_answer conn =
     ex_ok\<lparr>respFields := [\<lparr>Name = ''Content-Length'', Value = ''0''\<rparr>,
                           \<lparr>Name = ''Connection'', Value = conn\<rparr>]\<rparr>"

definition ex_refusal :: "string \<Rightarrow> Response" where
  "ex_refusal conn =
     \<lparr>respStatus = 500, respReason = ''Internal Server Error'', respMajor = 1, respMinor = 1,
      respFields = [\<lparr>Name = ''Content-Type'', Value = ''text/plain; charset=utf-8''\<rparr>,
                    \<lparr>Name = ''Content-Length'', Value = ''50''\<rparr>,
                    \<lparr>Name = ''Connection'', Value = conn\<rparr>],
      respBody = Some ''Round-trip to upstream failed: connection refused.''\<rparr>"

text \<open>A parsed authority certificate.\<close>

definition ex_ca :: x509Certificate where
  "ex_ca =
     \<lparr>SerialNumber = 1, Subject = ''Example CA'', NotBefore = 0, NotAfter = 1000,
      KeyUsage = [], ExtKeyUsage = [], BasicConstraintsValid = True,
      IPAddresses = [], DNSNames = []\<rparr>"

section \<open>Properties of the header scrubber\<close>

lemma is_any_iff: "is_any f names \<longleftrightarrow> (\<exists>n \<in> set names. Is f n)"
  by (induction names) auto

lemma Connection_blacklisted: "Is f ''Connection'' \<Longrightarrow> is_any f blacklist"
  by (simp add: blacklist_def)

lemma framing_blacklisted:
  "is_any \<lparr>Name = ''Content-Length'', Value = v\<rparr> blacklist"
  "is_any \<lparr>Name = ''Transfer-Encoding'', Value = v\<rparr> blacklist"
  by (simp_all add: blacklist_def Is_def strcaseeq_def lower_def)

lemma framing_not_Connection:
  "\<not> Is \<lparr>Name = ''Content-Length'', Value = v\<rparr> ''Connection''"
  "\<not> Is \<lparr>Name = ''Transfer-Encoding'', Value = v\<rparr> ''Connection''"
  by (simp_all add: Is_def strcaseeq_def lower_def)

lemma Split_without_field: "filter (\<lambda>f. Is f name) fs = [] \<Longrightarrow> Split fs name sep = []"
  by (simp add: Split_def)

lemma forwardable_not_Connection: "forwardable tokens f \<Longrightarrow> \<not> Is f ''Connection''"
  using Connection_blacklisted by (auto simp: forwardable_def split: if_splits)

lemma forwardable_nil: "forwardable tokens f \<Longrightarrow> forwardable [] f"
  by (auto simp: forwardable_def split: if_splits)

text \<open>The scrubber keeps the forwardable fields in their order and puts one framing
  field behind them.\<close>

lemma scrub_shape:
  "scrubHeaderFields fs sz =
     filter (forwardable (Split fs ''Connection'' (CHR '',''))) fs
       @ [if sz \<ge> 0 then \<lparr>Name = ''Content-Length'', Value = FormatInt sz\<rparr>
          else \<lparr>Name = ''Transfer-Encoding'', Value = ''chunked''\<rparr>]"
  by (simp add: scrubHeaderFields_def Filter_def Add_def)

lemma scrub_no_Connection: "filter (\<lambda>f. Is f ''Connection'') (scrubHeaderFields fs sz) = []"
  by (auto simp: scrub_shape framing_not_Connection filter_empty_conv
      dest: forwardable_not_Connection)

lemma filter_forwardable_again:
  "filter (\<lambda>f. forwardable tokens f \<and> forwardable [] f) fs = filter (forwardable tokens) fs"
  by (rule filter_cong) (auto dest: forwardable_nil)

text \<open>
  Claim C4, as the specification states it: after scrubbing, no field whose name is on the
  blacklist is present. The scrubber itself ends by adding \<open>Content-Length\<close> (or
  \<open>Transfer-Encoding\<close>), both of which are on the blacklist: scrubbing the single field
  \<open>Host: x.example\<close> with body size 0 yields a list that contains \<open>Content-Length: 0\<close>.
\<close>

theorem scrub_leaves_blacklisted_counterexample:
  "\<lparr>Name = ''Content-Length'', Value = ''0''\<rparr>
     \<in> set (scrubHeaderFields [\<lparr>Name = ''Host'', Value = ''x.example''\<rparr>] 0)
   \<and> Is \<lparr>Name = ''Content-Length'', Value = ''0''\<rparr> ''Content-Length''
   \<and> ''Content-Length'' \<in> set blacklist"
  by code_simp

text \<open>
  Claim C4, amended: for every field list \<open>F\<close> and body size \<open>s\<close>, the result of scrubbing
  ends with the framing field that the scrubber adds (\<open>Content-Length: s\<close> when \<open>s \<ge> 0\<close>,
  \<open>Transfer-Encoding: chunked\<close> otherwise), and no field before that one has a name that
  matches, without regard to case, a name on the blacklist or a token listed in the
  \<open>Connection\<close> fields of \<open>F\<close>.
\<close>

theorem scrub_keeps_only_forwardable:
  "(\<forall>f \<in> set (butlast (scrubHeaderFields F s)).
       (\<forall>n \<in> set blacklist. \<not> Is f n)
     \<and> (\<forall>n \<in> set (Split F ''Connection'' (CHR '','')). \<not> Is f n))
   \<and> last (scrubHeaderFields F s) =
       (if s \<ge> 0 then \<lparr>Name = ''Content-Length'', Value = FormatInt s\<rparr>
        else \<lparr>Name = ''Transfer-Encoding'', Value = ''chunked''\<rparr>)"
  by (auto simp: scrub_shape forwardable_def is_any_iff split: if_splits)

theorem scrub_keeps_only_forwardable_witness:
  "\<lparr>Name = ''Host'', Value = ''x.example''\<rparr> \<in> set (butlast (scrubHeaderFields ex_fields 12))
   \<and> ''Connection'' \<in> set blacklist
   \<and> ''X-Custom'' \<in> set (Split ex_fields ''Connection'' (CHR '',''))
   \<and> \<not> Is \<lparr>Name = ''Host'', Value = ''x.example''\<rparr> ''Connection''
   \<and> \<not> Is \<lparr>Name = ''Host'', Value = ''x.example''\<rparr> ''X-Custom''
   \<and> last (scrubHeaderFields ex_fields 12) = \<lparr>Name = ''Content-Length'', Value = ''12''\<rparr>"
proof -
  have kept: "\<lparr>Name = ''Host'', Value = ''x.example''\<rparr>
      \<in> set (butlast (scrubHeaderFields ex_fields 12))"
    by code_simp
  have listed: "''Connection'' \<in> set blacklist"
    "''X-Custom'' \<in> set (Split ex_fields ''Connection'' (CHR '',''))"
    by code_simp+
  have digits: "FormatInt 12 = ''12''"
    by code_simp
  from scrub_keeps_only_forwardable [of ex_fields 12] kept listed digits
  show ?thesis by auto
qed

text \<open>
  Claim C5: scrubbing is idempotent. For every field list \<open>F\<close> and body size \<open>s\<close>,
  scrubbing the scrubbed list again with the same size gives the same fields in the same
  order.
\<close>

theorem scrub_idempotent:
  "scrubHeaderFields (scrubHeaderFields F s) s = scrubHeaderFields F s"
proof -
  let ?G = "scrubHeaderFields F s"
  have tokens: "Split ?G ''Connection'' (CHR '','') = []"
    by (rule Split_without_field) (rule scrub_no_Connection)
  have framing: "\<not> forwardable [] \<lparr>Name = ''Content-Length'', Value = v\<rparr>"
    "\<not> forwardable [] \<lparr>Name = ''Transfer-Encoding'', Value = v\<rparr>" for v
    by (simp_all add: forwardable_def framing_blacklisted)
  have "filter (forwardable []) ?G = filter (forwardable (Split F ''Connection'' (CHR '',''))) F"
    by (simp add: scrub_shape [of F] filter_forwardable_again framing)
  then show ?thesis
    by (simp add: scrub_shape [of ?G] tokens) (simp add: scrub_shape)
qed

theorem scrub_idempotent_witness:
  "scrubHeaderFields (scrubHeaderFields ex_fields 12) 12 =
     [\<lparr>Name = ''Host'', Value = ''x.example''\<rparr>, \<lparr>Name = ''Content-Length'', Value = ''12''\<rparr>]"
proof -
  have once: "scrubHeaderFields ex_fields 12 =
      [\<lparr>Name = ''Host'', Value = ''x.example''\<rparr>, \<lparr>Name = ''Content-Length'', Value = ''12''\<rparr>]"
    by code_simp
  from scrub_idempotent [of ex_fields 12] once show ?thesis by simp
qed

section \<open>The example runs\<close>

lemma run_get:
  "serveHTTP_step ex_lib ex_proxy (turn_of ex_get) =
     Next [Upstream (ex_forwarded ex_get ''0''), Wrote (ex_answer ''keep-alive'') None]"
  by code_simp

lemma run_get_tls:
  "serveHTTPS_step ex_lib ex_proxy ''x.example:443'' (turn_of ex_get) =
     Next [Upstream (ex_tunnelled ex_get), Wrote (ex_answer ''keep-alive'') None]"
  by code_simp

lemma run_post:
  "serveHTTP_step ex_lib ex_proxy (turn_of ex_post) =
     Next [Upstream (ex_forwarded ex_post ''5''), Wrote (ex_answer ''keep-alive'') None]"
  by code_simp

lemma run_post_tls:
  "serveHTTPS_step ex_lib ex_proxy ''x.example:443'' (turn_of ex_post) =
     Stop (Returned None) [Upstream (ex_tunnelled ex_post), Wrote (ex_answer ''close'') None]"
  by code_simp

lemma run_get_failing:
  "serveHTTP_step ex_lib ex_failing (turn_of ex_get) =
     Next [Upstream (ex_forwarded ex_get ''0''), Wrote (ex_refusal ''keep-alive'') None]"
  by code_simp

lemma run_get_failing_tls:
  "serveHTTPS_step ex_lib ex_failing ''x.example:443'' (turn_of ex_get) =
     Next [Upstream (ex_tunnelled ex_get), Wrote (ex_refusal ''keep-alive'') None]"
  by code_simp

lemma read_get: "readRequest ex_lib (header (turn_of ex_get)) = (Some ex_get, None, None)"
  by code_simp

lemma read_post:
  "readRequest ex_lib (header (turn_of ex_post)) = (Some ex_post, Some \<lparr>br_e = None\<rparr>, None)"
  by code_simp

section \<open>Fields, events and the end of a turn\<close>

lemma Is_own_name: "Is \<lparr>Name = name, Value = v\<rparr> name"
  by (simp add: Is_def strcaseeq_def)

lemma values_of_SetField: "values_of (SetField fs name v) name = [v]"
  by (simp add: values_of_def SetField_def Add_def Filter_def Is_own_name)

lemma statusResponse_status: "respStatus (statusResponse L status body) = status"
  by (simp add: statusResponse_def NewResponse_def Let_def)

lemma decide_status: "respStatus (fst (decide closing body resp)) = respStatus resp"
  by (simp add: decide_def)

lemma decide_connection:
  "connection_header (fst (decide closing body resp)) =
     [if \<not> closing \<and> ended_cleanly body then ''keep-alive'' else ''close'']"
  by (simp add: decide_def connection_header_def values_of_SetField)

lemma ended_cleanly_iff:
  "ended_cleanly b \<longleftrightarrow> b = None \<or> map_option LastError b = Some (Some EOF)"
  by (cases b) (auto simp: ended_cleanly_def)

lemma sent_append: "sent (xs @ ys) = sent xs @ sent ys"
  by (induction xs rule: sent.induct) auto

lemma upstream_append: "upstream (xs @ ys) = upstream xs @ upstream ys"
  by (induction xs rule: upstream.induct) auto

text \<open>Once a response has reached the client whole, the loop goes on exactly when the
  decision was to keep the connection.\<close>

lemma respond_continues:
  "sent (events_of (respond L wio closing body resp m evs)) \<noteq> sent evs \<Longrightarrow>
     continues (respond L wio closing body resp m evs) \<longleftrightarrow> \<not> closing \<and> ended_cleanly body"
  by (cases wio)
     (auto simp: respond_def decide_def writeResponse_def events_of_def continues_def sent_append
        split: sum.splits prod.splits if_splits)

lemma respond_sent:
  "r \<in> set (sent (events_of (respond L wio closing body resp m evs))) \<Longrightarrow>
     r \<in> set (sent evs) \<or> r = fst (decide closing body resp)"
  by (cases wio)
     (auto simp: respond_def writeResponse_def events_of_def sent_append
        split: sum.splits prod.splits if_splits)

lemma respond_upstream:
  "upstream (events_of (respond L wio closing body resp m evs)) = upstream evs"
  by (cases wio)
     (auto simp: respond_def writeResponse_def events_of_def upstream_append
        split: sum.splits prod.splits if_splits)

lemma refuse_upstream: "refuse L wio resp req = (r, evs) \<Longrightarrow> upstream evs = []"
  by (cases wio) (auto simp: refuse_def writeResponse_def split: sum.splits)

section \<open>The two dispatch functions\<close>

lemma proxy_error_None: "snd (fst (proxy L p req body)) = None"
  by (simp add: proxy_def Let_def split: sum.splits prod.splits option.splits)

lemma proxy_events:
  "proxy L p req body = (out, req', body', evs) \<Longrightarrow>
     sent evs = [] \<and> (evs = [] \<or> evs = [Upstream req'])"
  by (auto simp: proxy_def Let_def split: sum.splits prod.splits option.splits if_splits)

lemma proxy_body_None_iff: "body_after (proxy L p req body) = None \<longleftrightarrow> body = None"
  by (auto simp: body_after_def proxy_def Let_def
      split: sum.splits prod.splits option.splits if_splits)

lemma proxy_upstream:
  assumes "proxy L p req body = ((resp, err), req', body', evs)" "rq \<in> set (upstream evs)"
  shows "rq = req'"
    "\<And>e. snd (RoundTrip p req') = Inl e \<Longrightarrow>
       resp = statusResponse L 500 (''Round-trip to upstream failed: '' @ ErrorText L e @ ''.'')"
    "request_connection req' = []" "reqMajor req' = 1" "reqMinor req' = 1"
  using assms
  by (auto simp: proxy_def Let_def scrubRequest_def request_connection_def values_of_def
        scrub_no_Connection
      split: sum.splits prod.splits option.splits if_splits)

lemma forward_upstream:
  assumes "forward L p req body = ((resp, err), req', body', evs)"
  shows "evs = [Upstream req']"
    "\<And>e. snd (RoundTrip p req') = Inl e \<Longrightarrow> err = Some e"
    "request_connection req' = [''keep-alive'']"
  using assms
  by (auto simp: forward_def Let_def request_connection_def values_of_SetField
      split: sum.splits prod.splits option.splits if_splits)

lemma forward_body_None_iff: "body_after (forward L p req body) = None \<longleftrightarrow> body = None"
  by (auto simp: body_after_def forward_def Let_def
      split: sum.splits prod.splits option.splits if_splits)

text \<open>A turn whose request was read, and on the plain path is not a \<open>CONNECT\<close>, is the
  dispatch followed by the common end of a turn.\<close>

lemma serveHTTP_step_respond:
  assumes "readRequest L (header t) = (Some req, body, None)" "reqMethod req \<noteq> ''CONNECT''"
  shows "serveHTTP_step L p t =
     (case proxy L p req body of
        ((resp, err), req', body', evs) \<Rightarrow>
          respond L (io t) (Closing L (reqMajor req) (reqMinor req) (reqFields req)) body' resp
            (reqMethod req') evs)"
  using assms proxy_error_None [of L p req body]
  by (auto simp: serveHTTP_step_def split: prod.splits option.splits)

lemma serveHTTPS_step_respond:
  assumes "readRequest L (header t) = (Some req, body, None)"
  shows "serveHTTPS_step L p addr t =
     (case forward L p (req\<lparr>reqScheme := ''https'', reqRemote := addr\<rparr>) body of
        ((resp, err), req', body', evs) \<Rightarrow>
          respond L (io t) (Closing L (reqMajor req) (reqMinor req) (reqFields req)) body'
            (case err of
               Some e \<Rightarrow> statusResponse L 500
                          (''Round-trip to upstream failed: '' @ ErrorText L e @ ''.'')
             | None \<Rightarrow> the resp)
            (reqMethod req') evs)"
  using assms
  by (auto simp: serveHTTPS_step_def forward_def Let_def
      split: prod.splits option.splits sum.splits)

section \<open>A turn that has answered\<close>

lemma fst_decide:
  "fst (decide closing body resp) =
     resp\<lparr>respFields := SetField (respFields resp) ''Connection''
        (if \<not> closing \<and> ended_cleanly body then ''keep-alive'' else ''close'')\<rparr>"
  by (simp add: decide_def)

text \<open>When the writes succeed and the framing helper accepts the response, the response
  reaches the client.\<close>

lemma respond_received:
  "wio = None \<Longrightarrow> ResponseBodySize L (fst (decide closing body resp)) m = Inr sz \<Longrightarrow>
     sent (events_of (respond L wio closing body resp m evs)) =
       sent evs @ [fst (decide closing body resp)]"
  by (auto simp: respond_def writeResponse_def events_of_def sent_append split: prod.splits)

text \<open>A turn in which a response reached the client ends in one of two ways: the loop
  reads on, or it returns nil.\<close>

lemma respond_written:
  "sent (events_of (respond L wio closing body resp m evs)) \<noteq> sent evs \<Longrightarrow>
     respond L wio closing body resp m evs =
       (if \<not> closing \<and> ended_cleanly body
        then Next (events_of (respond L wio closing body resp m evs))
        else Stop (Returned None) (events_of (respond L wio closing body resp m evs)))"
  by (cases wio)
     (auto simp: respond_def decide_def writeResponse_def events_of_def sent_append
        split: sum.splits prod.splits if_splits)

lemma serveHTTP_step_written:
  assumes "readRequest L (header t) = (Some req, body, None)"
    and w: "sent (events_of (serveHTTP_step L p t)) \<noteq> []"
  shows "serveHTTP_step L p t =
     (if \<not> Closing L (reqMajor req) (reqMinor req) (reqFields req)
         \<and> ended_cleanly (body_after (proxy L p req body))
      then Next (events_of (serveHTTP_step L p t))
      else Stop (Returned None) (events_of (serveHTTP_step L p t)))"
proof -
  have nc: "reqMethod req \<noteq> ''CONNECT''"
    using w assms(1) by (auto simp: serveHTTP_step_def events_of_def)
  obtain resp err req' body' evs where px: "proxy L p req body = ((resp, err), req', body', evs)"
    by (metis prod.exhaust)
  have ev: "sent evs = []" using proxy_events [OF px] by simp
  have b: "body_after (proxy L p req body) = body'" by (simp add: px body_after_def)
  have step: "serveHTTP_step L p t =
      respond L (io t) (Closing L (reqMajor req) (reqMinor req) (reqFields req)) body' resp
        (reqMethod req') evs"
    by (simp add: serveHTTP_step_respond [OF assms(1) nc] px)
  from w show ?thesis
    unfolding step b by (intro respond_written) (simp add: ev)
qed

lemma serveHTTPS_step_written:
  assumes "readRequest L (header t) = (Some req, body, None)"
    and w: "sent (events_of (serveHTTPS_step L p addr t)) \<noteq> []"
  shows "serveHTTPS_step L p addr t =
     (if \<not> Closing L (reqMajor req) (reqMinor req) (reqFields req)
         \<and> ended_cleanly
             (body_after (forward L p (req\<lparr>reqScheme := ''https'', reqRemote := addr\<rparr>) body))
      then Next (events_of (serveHTTPS_step L p addr t))
      else Stop (Returned None) (events_of (serveHTTPS_step L p addr t)))"
proof -
  let ?req = "req\<lparr>reqScheme := ''https'', reqRemote := addr\<rparr>"
  obtain resp err req' body' evs where fw: "forward L p ?req body = ((resp, err), req', body', evs)"
    by (metis prod.exhaust)
  have ev: "sent evs = []" using forward_upstream(1) [OF fw] by simp
  have b: "body_after (forward L p ?req body) = body'" by (simp add: fw body_after_def)
  note step = serveHTTPS_step_respond [OF assms(1), of p addr, unfolded fw prod.case]
  from w show ?thesis
    unfolding step b by (intro respond_written) (simp add: ev)
qed

lemma ended_cleanly_after_proxy:
  "ended_cleanly (body_after (proxy L p req body)) \<longleftrightarrow>
     body = None \<or> map_option LastError (body_after (proxy L p req body)) = Some (Some EOF)"
  using proxy_body_None_iff [of L p req body] by (simp add: ended_cleanly_iff)

lemma ended_cleanly_after_forward:
  "ended_cleanly (body_after (forward L p req body)) \<longleftrightarrow>
     body = None \<or> map_option LastError (body_after (forward L p req body)) = Some (Some EOF)"
  using forward_body_None_iff [of L p req body] by (simp add: ended_cleanly_iff)

text \<open>A turn in which the round trip failed is the common end of a turn applied to the
  500 status response.\<close>

lemma serveHTTP_step_failure:
  assumes "readRequest L (header t) = (Some req, body, None)"
    and up: "rq \<in> set (upstream (events_of (serveHTTP_step L p t)))"
    and fail: "snd (RoundTrip p rq) = Inl e"
  shows "serveHTTP_step L p t =
     respond L (io t) (Closing L (reqMajor req) (reqMinor req) (reqFields req))
       (body_after (proxy L p req body))
       (statusResponse L 500 (''Round-trip to upstream failed: '' @ ErrorText L e @ ''.''))
       (reqMethod rq) [Upstream rq]"
proof -
  have nc: "reqMethod req \<noteq> ''CONNECT''"
    using up assms(1) by (auto simp: serveHTTP_step_def events_of_def)
  obtain resp err req' body' evs where px: "proxy L p req body = ((resp, err), req', body', evs)"
    by (metis prod.exhaust)
  have step: "serveHTTP_step L p t =
      respond L (io t) (Closing L (reqMajor req) (reqMinor req) (reqFields req)) body' resp
        (reqMethod req') evs"
    by (simp add: serveHTTP_step_respond [OF assms(1) nc] px)
  have b: "body_after (proxy L p req body) = body'" by (simp add: px body_after_def)
  from up have mem: "rq \<in> set (upstream evs)" by (simp add: step respond_upstream)
  from proxy_upstream(1,2) [OF px mem] fail
  have "rq = req'" "resp =
      statusResponse L 500 (''Round-trip to upstream failed: '' @ ErrorText L e @ ''.'')"
    by simp_all
  moreover from mem proxy_events [OF px] have "evs = [Upstream req']" by auto
  ultimately show ?thesis by (simp add: step b)
qed

lemma serveHTTPS_step_failure:
  assumes "readRequest L (header t) = (Some req, body, None)"
    and up: "rq \<in> set (upstream (events_of (serveHTTPS_step L p addr t)))"
    and fail: "snd (RoundTrip p rq) = Inl e"
  shows "serveHTTPS_step L p addr t =
     respond L (io t) (Closing L (reqMajor req) (reqMinor req) (reqFields req))
       (body_after (forward L p (req\<lparr>reqScheme := ''https'', reqRemote := addr\<rparr>) body))
       (statusResponse L 500 (''Round-trip to upstream failed: '' @ ErrorText L e @ ''.''))
       (reqMethod rq) [Upstream rq]"
proof -
  let ?req = "req\<lparr>reqScheme := ''https'', reqRemote := addr\<rparr>"
  obtain resp err req' body' evs where fw: "forward L p ?req body = ((resp, err), req', body', evs)"
    by (metis prod.exhaust)
  note step = serveHTTPS_step_respond [OF assms(1), of p addr, unfolded fw prod.case]
  have b: "body_after (forward L p ?req body) = body'" by (simp add: fw body_after_def)
  have evs: "evs = [Upstream req']" by (rule forward_upstream(1) [OF fw])
  from up have "rq = req'" by (simp add: step respond_upstream evs)
  moreover with forward_upstream(2) [OF fw] fail have "err = Some e" by simp
  ultimately show ?thesis by (simp add: step b evs)
qed

section \<open>The plain dispatch never reports an error\<close>

text \<open>
  Claim C10: for every request, \<open>Proxy.proxy\<close> returns a nil error. A request URI that
  does not parse or is not absolute, a failure to scrub the request, a failure of the
  round trip and a failure to scrub the response each come back as a status response
  beside a nil error, and otherwise the scrubbed response of the upstream does; so a turn
  of the plain loop that has read a request other than a \<open>CONNECT\<close> always ends in the
  keep-alive decision, never in the branch that answers \<open>Unknown error\<close>.
\<close>

theorem proxy_returns_nil_error:
  "snd (fst (proxy L p req body)) = None
   \<and> (\<forall>e. ParseRequestURI L (reqURI req) = Inl e \<longrightarrow>
        fst (fst (proxy L p req body)) = statusResponse L 400 ''Invalid URI in request.'')
   \<and> (\<forall>u. ParseRequestURI L (reqURI req) = Inr u \<and> \<not> IsAbs u \<longrightarrow>
        fst (fst (proxy L p req body)) = statusResponse L 400 ''Request URI must be absolute.'')
   \<and> (\<forall>u rq e. ParseRequestURI L (reqURI req) = Inr u \<and> IsAbs u
          \<and> scrubRequest L req = (rq, Some e) \<longrightarrow>
        fst (fst (proxy L p req body)) = statusResponse L 500 ''Could not scrub request.'')
   \<and> (\<forall>u rq e. ParseRequestURI L (reqURI req) = Inr u \<and> IsAbs u
          \<and> scrubRequest L req = (rq, None)
          \<and> snd (RoundTrip p (rq\<lparr>reqURI := urlRequestURI u, reqScheme := urlScheme u,
                                  reqRemote := urlHost u\<rparr>)) = Inl e \<longrightarrow>
        fst (fst (proxy L p req body)) =
          statusResponse L 500 (''Round-trip to upstream failed: '' @ ErrorText L e @ ''.''))
   \<and> (\<forall>u rq resp rs e. ParseRequestURI L (reqURI req) = Inr u \<and> IsAbs u
          \<and> scrubRequest L req = (rq, None)
          \<and> snd (RoundTrip p (rq\<lparr>reqURI := urlRequestURI u, reqScheme := urlScheme u,
                                  reqRemote := urlHost u\<rparr>)) = Inr resp
          \<and> scrubResponse L resp (reqMethod rq) = (rs, Some e) \<longrightarrow>
        fst (fst (proxy L p req body)) = statusResponse L 500 ''Could not scrub response.'')
   \<and> (\<forall>u rq resp rs. ParseRequestURI L (reqURI req) = Inr u \<and> IsAbs u
          \<and> scrubRequest L req = (rq, None)
          \<and> snd (RoundTrip p (rq\<lparr>reqURI := urlRequestURI u, reqScheme := urlScheme u,
                                  reqRemote := urlHost u\<rparr>)) = Inr resp
          \<and> scrubResponse L resp (reqMethod rq) = (rs, None) \<longrightarrow>
        fst (fst (proxy L p req body)) = rs)
   \<and> (\<forall>t. readRequest L (header t) = (Some req, body, None) \<and> reqMethod req \<noteq> ''CONNECT'' \<longrightarrow>
        serveHTTP_step L p t =
          (case proxy L p req body of
             ((resp, err), req', body', evs) \<Rightarrow>
               respond L (io t) (Closing L (reqMajor req) (reqMinor req) (reqFields req)) body'
                 resp (reqMethod req') evs))"
proof (intro conjI allI impI)
  show "snd (fst (proxy L p req body)) = None"
    by (rule proxy_error_None)
next
  fix e assume "ParseRequestURI L (reqURI req) = Inl e"
  then show "fst (fst (proxy L p req body)) = statusResponse L 400 ''Invalid URI in request.''"
    by (simp add: proxy_def)
next
  fix u assume "ParseRequestURI L (reqURI req) = Inr u \<and> \<not> IsAbs u"
  then show "fst (fst (proxy L p req body))
      = statusResponse L 400 ''Request URI must be absolute.''"
    by (simp add: proxy_def)
next
  fix u rq e
  assume "ParseRequestURI L (reqURI req) = Inr u \<and> IsAbs u \<and> scrubRequest L req = (rq, Some e)"
  then show "fst (fst (proxy L p req body)) = statusResponse L 500 ''Could not scrub request.''"
    by (simp add: proxy_def)
next
  fix u rq e
  assume "ParseRequestURI L (reqURI req) = Inr u \<and> IsAbs u \<and> scrubRequest L req = (rq, None)
     \<and> snd (RoundTrip p (rq\<lparr>reqURI := urlRequestURI u, reqScheme := urlScheme u,
                             reqRemote := urlHost u\<rparr>)) = Inl e"
  then show "fst (fst (proxy L p req body)) =
      statusResponse L 500 (''Round-trip to upstream failed: '' @ ErrorText L e @ ''.'')"
    by (auto simp: proxy_def Let_def split: prod.splits)
next
  fix u rq resp rs e
  assume "ParseRequestURI L (reqURI req) = Inr u \<and> IsAbs u \<and> scrubRequest L req = (rq, None)
     \<and> snd (RoundTrip p (rq\<lparr>reqURI := urlRequestURI u, reqScheme := urlScheme u,
                             reqRemote := urlHost u\<rparr>)) = Inr resp
     \<and> scrubResponse L resp (reqMethod rq) = (rs, Some e)"
  then show "fst (fst (proxy L p req body)) = statusResponse L 500 ''Could not scrub response.''"
    by (auto simp: proxy_def Let_def split: prod.splits)
next
  fix u rq resp rs
  assume "ParseRequestURI L (reqURI req) = Inr u \<and> IsAbs u \<and> scrubRequest L req = (rq, None)
     \<and> snd (RoundTrip p (rq\<lparr>reqURI := urlRequestURI u, reqScheme := urlScheme u,
                             reqRemote := urlHost u\<rparr>)) = Inr resp
     \<and> scrubResponse L resp (reqMethod rq) = (rs, None)"
  then show "fst (fst (proxy L p req body)) = rs"
    by (auto simp: proxy_def Let_def split: prod.splits)
next
  fix t :: turn
  assume "readRequest L (header t) = (Some req, body, None) \<and> reqMethod req \<noteq> ''CONNECT''"
  then show "serveHTTP_step L p t =
      (case proxy L p req body of
         ((resp, err), req', body', evs) \<Rightarrow>
           respond L (io t) (Closing L (reqMajor req) (reqMinor req) (reqFields req)) body'
             resp (reqMethod req') evs)"
    by (simp add: serveHTTP_step_respond)
qed

text \<open>The witness runs \<open>proxy\<close> into each of its five status responses: behind the failing
  upstream, with a URI that does not parse, with a URI that is not absolute, with a
  request that cannot be scrubbed, and behind the upstream whose answer cannot be
  scrubbed.\<close>

theorem proxy_returns_nil_error_witness:
  "ParseRequestURI ex_lib (reqURI ex_get) =
     Inr \<lparr>urlScheme = ''http'', urlHost = ''x.example'', urlRequestURI = ''/a''\<rparr>
   \<and> IsAbs \<lparr>urlScheme = ''http'', urlHost = ''x.example'', urlRequestURI = ''/a''\<rparr>
   \<and> scrubRequest ex_lib ex_get =
       (ex_get\<lparr>reqFields := [\<lparr>Name = ''Host'', Value = ''x.example''\<rparr>,
                             \<lparr>Name = ''Content-Length'', Value = ''0''\<rparr>]\<rparr>, None)
   \<and> snd (RoundTrip ex_failing (ex_forwarded ex_get ''0'')) = Inl (Err ''connection refused'')
   \<and> fst (proxy ex_lib ex_failing ex_get None) =
       (statusResponse ex_lib 500 ''Round-trip to upstream failed: connection refused.'', None)
   \<and> ParseRequestURI ex_lib (reqURI (ex_get\<lparr>reqURI := ''x.example''\<rparr>)) =
       Inl (Err ''invalid URI for request'')
   \<and> fst (proxy ex_lib ex_failing (ex_get\<lparr>reqURI := ''x.example''\<rparr>) None) =
       (statusResponse ex_lib 400 ''Invalid URI in request.'', None)
   \<and> ParseRequestURI ex_lib (reqURI (ex_get\<lparr>reqURI := ''/a''\<rparr>)) =
       Inr \<lparr>urlScheme = [], urlHost = [], urlRequestURI = ''/a''\<rparr>
   \<and> \<not> IsAbs \<lparr>urlScheme = [], urlHost = [], urlRequestURI = ''/a''\<rparr>
   \<and> fst (proxy ex_lib ex_failing (ex_get\<lparr>reqURI := ''/a''\<rparr>) None) =
       (statusResponse ex_lib 400 ''Request URI must be absolute.'', None)
   \<and> scrubRequest ex_lib ex_bad_length = (ex_bad_length, Some (Err ''invalid content length''))
   \<and> fst (proxy ex_lib ex_failing ex_bad_length None) =
       (statusResponse ex_lib 500 ''Could not scrub request.'', None)
   \<and> snd (RoundTrip ex_garbled (ex_forwarded ex_get ''0'')) =
       Inr (ex_ok\<lparr>respFields := [\<lparr>Name = ''Content-Length'', Value = ''x''\<rparr>]\<rparr>)
   \<and> scrubResponse ex_lib (ex_ok\<lparr>respFields := [\<lparr>Name = ''Content-Length'', Value = ''x''\<rparr>]\<rparr>)
         ''GET'' =
       (ex_ok\<lparr>respFields := [\<lparr>Name = ''Content-Length'', Value = ''x''\<rparr>]\<rparr>,
        Some (Err ''invalid content length''))
   \<and> fst (proxy ex_lib ex_garbled ex_get None) =
       (statusResponse ex_lib 500 ''Could not scrub response.'', None)"
proof -
  let ?u = "\<lparr>urlScheme = ''http'', urlHost = ''x.example'', urlRequestURI = ''/a''\<rparr>"
  let ?v = "\<lparr>urlScheme = [], urlHost = [], urlRequestURI = ''/a''\<rparr>"
  let ?rq = "ex_get\<lparr>reqFields := [\<lparr>Name = ''Host'', Value = ''x.example''\<rparr>,
                                    \<lparr>Name = ''Content-Length'', Value = ''0''\<rparr>]\<rparr>"
  let ?bad = "ex_ok\<lparr>respFields := [\<lparr>Name = ''Content-Length'', Value = ''x''\<rparr>]\<rparr>"
  have uri: "ParseRequestURI ex_lib (reqURI ex_get) = Inr ?u" and abs: "IsAbs ?u"
    by code_simp+
  have scrub: "scrubRequest ex_lib ex_get = (?rq, None)"
    by code_simp
  have sent_on: "?rq\<lparr>reqURI := urlRequestURI ?u, reqScheme := urlScheme ?u,
      reqRemote := urlHost ?u\<rparr> = ex_forwarded ex_get ''0''"
    by (simp add: ex_forwarded_def ex_get_def)
  have get: "reqMethod ?rq = ''GET''"
    by (simp add: ex_get_def)
  have fails: "snd (RoundTrip ex_failing r) = Inl (Err ''connection refused'')" for r
    by (simp add: ex_failing_def)
  have garbles: "snd (RoundTrip ex_garbled r) = Inr ?bad" for r
    by (simp add: ex_garbled_def)
  have msg: "ErrorText ex_lib (Err ''connection refused'') = ''connection refused''"
    by (simp add: ex_lib_def ex_ErrorText_def)
  have bad: "ParseRequestURI ex_lib (reqURI (ex_get\<lparr>reqURI := ''x.example''\<rparr>)) =
      Inl (Err ''invalid URI for request'')"
    by code_simp
  have rel: "ParseRequestURI ex_lib (reqURI (ex_get\<lparr>reqURI := ''/a''\<rparr>)) = Inr ?v"
    and not_abs: "\<not> IsAbs ?v"
    by code_simp+
  have uri': "ParseRequestURI ex_lib (reqURI ex_bad_length) = Inr ?u"
    by code_simp
  have scrub': "scrubRequest ex_lib ex_bad_length =
      (ex_bad_length, Some (Err ''invalid content length''))"
    by code_simp
  have scrub_resp: "scrubResponse ex_lib ?bad ''GET'' = (?bad, Some (Err ''invalid content length''))"
    by code_simp
  from proxy_returns_nil_error [of ex_lib ex_failing ex_get None]
    uri abs scrub fails [of "ex_forwarded ex_get ''0''"] sent_on
  have "fst (proxy ex_lib ex_failing ex_get None) =
      (statusResponse ex_lib 500
         (''Round-trip to upstream failed: '' @ ErrorText ex_lib (Err ''connection refused'') @ ''.''),
       None)"
    by (metis prod.collapse)
  then have one: "fst (proxy ex_lib ex_failing ex_get None) =
      (statusResponse ex_lib 500 ''Round-trip to upstream failed: connection refused.'', None)"
    by (simp add: msg)
  from proxy_returns_nil_error [of ex_lib ex_failing "ex_get\<lparr>reqURI := ''x.example''\<rparr>" None] bad
  have two: "fst (proxy ex_lib ex_failing (ex_get\<lparr>reqURI := ''x.example''\<rparr>) None) =
      (statusResponse ex_lib 400 ''Invalid URI in request.'', None)"
    by (metis prod.collapse)
  from proxy_returns_nil_error [of ex_lib ex_failing "ex_get\<lparr>reqURI := ''/a''\<rparr>" None]
    rel not_abs
  have three: "fst (proxy ex_lib ex_failing (ex_get\<lparr>reqURI := ''/a''\<rparr>) None) =
      (statusResponse ex_lib 400 ''Request URI must be absolute.'', None)"
    by (metis prod.collapse)
  from proxy_returns_nil_error [of ex_lib ex_failing ex_bad_length None] uri' abs scrub'
  have four: "fst (proxy ex_lib ex_failing ex_bad_length None) =
      (statusResponse ex_lib 500 ''Could not scrub request.'', None)"
    by (metis prod.collapse)
  from proxy_returns_nil_error [of ex_lib ex_garbled ex_get None]
    uri abs scrub garbles [of "ex_forwarded ex_get ''0''"] sent_on scrub_resp get
  have five: "fst (proxy ex_lib ex_garbled ex_get None) =
      (statusResponse ex_lib 500 ''Could not scrub response.'', None)"
    by (metis prod.collapse)
  from uri abs scrub fails [of "ex_forwarded ex_get ''0''"] one bad two rel not_abs three
    scrub' four garbles [of "ex_forwarded ex_get ''0''"] scrub_resp five
  show ?thesis
    by simp
qed

section \<open>The keep-alive decision\<close>

text \<open>
  Claim C1: for every request handled by the connection loop, plain or inside a tunnel,
  once the response has been written the connection stays open for another request if
  and only if the client did not ask to close and the \<open>LastError\<close> of the request's body
  reader is \<open>io.EOF\<close>, a request without a body counting as ended cleanly. Staying open
  is a fact of the loop: when the condition holds, the loop over the turns \<open>t # ts\<close> goes
  on to serve the turns \<open>ts\<close>, and when it does not, the loop returns nil after the
  events of \<open>t\<close>, whatever \<open>ts\<close> holds. The body reader is inspected as the dispatch left
  it.
\<close>

theorem keep_alive_decision:
  assumes "readRequest L (header t) = (Some req, body, None)"
  shows
    "(sent (events_of (serveHTTP_step L p t)) \<noteq> [] \<longrightarrow>
        (continues (serveHTTP_step L p t) \<longleftrightarrow>
           \<not> Closing L (reqMajor req) (reqMinor req) (reqFields req)
           \<and> (body = None
              \<or> map_option LastError (body_after (proxy L p req body)) = Some (Some EOF)))
      \<and> serveHTTP L p (t # ts) =
          (if \<not> Closing L (reqMajor req) (reqMinor req) (reqFields req)
              \<and> (body = None
                 \<or> map_option LastError (body_after (proxy L p req body)) = Some (Some EOF))
           then (fst (serveHTTP L p ts),
                 events_of (serveHTTP_step L p t) @ snd (serveHTTP L p ts))
           else (Returned None, events_of (serveHTTP_step L p t))))
     \<and> (sent (events_of (serveHTTPS_step L p addr t)) \<noteq> [] \<longrightarrow>
        (continues (serveHTTPS_step L p addr t) \<longleftrightarrow>
           \<not> Closing L (reqMajor req) (reqMinor req) (reqFields req)
           \<and> (body = None
              \<or> map_option LastError
                   (body_after (forward L p (req\<lparr>reqScheme := ''https'', reqRemote := addr\<rparr>) body))
                 = Some (Some EOF)))
      \<and> serveHTTPS L p addr (t # ts) =
          (if \<not> Closing L (reqMajor req) (reqMinor req) (reqFields req)
              \<and> (body = None
                 \<or> map_option LastError
                      (body_after
                         (forward L p (req\<lparr>reqScheme := ''https'', reqRemote := addr\<rparr>) body))
                    = Some (Some EOF))
           then (fst (serveHTTPS L p addr ts),
                 events_of (serveHTTPS_step L p addr t) @ snd (serveHTTPS L p addr ts))
           else (Returned None, events_of (serveHTTPS_step L p addr t))))"
proof (intro conjI impI)
  assume w: "sent (events_of (serveHTTP_step L p t)) \<noteq> []"
  define evs where "evs = events_of (serveHTTP_step L p t)"
  define K where "K \<longleftrightarrow>
      \<not> Closing L (reqMajor req) (reqMinor req) (reqFields req)
      \<and> (body = None
         \<or> map_option LastError (body_after (proxy L p req body)) = Some (Some EOF))"
  have "serveHTTP_step L p t = (if K then Next evs else Stop (Returned None) evs)"
    using serveHTTP_step_written [OF assms w]
    unfolding evs_def K_def ended_cleanly_after_proxy .
  then have step: "K \<Longrightarrow> serveHTTP_step L p t = Next evs"
    "\<not> K \<Longrightarrow> serveHTTP_step L p t = Stop (Returned None) evs"
    by simp_all
  show "continues (serveHTTP_step L p t) \<longleftrightarrow>
      \<not> Closing L (reqMajor req) (reqMinor req) (reqFields req)
      \<and> (body = None
         \<or> map_option LastError (body_after (proxy L p req body)) = Some (Some EOF))"
    unfolding K_def [symmetric] by (cases K) (simp_all add: step continues_def)
  show "serveHTTP L p (t # ts) =
      (if \<not> Closing L (reqMajor req) (reqMinor req) (reqFields req)
          \<and> (body = None
             \<or> map_option LastError (body_after (proxy L p req body)) = Some (Some EOF))
       then (fst (serveHTTP L p ts), events_of (serveHTTP_step L p t) @ snd (serveHTTP L p ts))
       else (Returned None, events_of (serveHTTP_step L p t)))"
    unfolding K_def [symmetric]
    by (cases K) (simp_all add: serveHTTP_def step events_of_def case_prod_beta)
next
  let ?req = "req\<lparr>reqScheme := ''https'', reqRemote := addr\<rparr>"
  assume w: "sent (events_of (serveHTTPS_step L p addr t)) \<noteq> []"
  define evs where "evs = events_of (serveHTTPS_step L p addr t)"
  define K where "K \<longleftrightarrow>
      \<not> Closing L (reqMajor req) (reqMinor req) (reqFields req)
      \<and> (body = None
         \<or> map_option LastError (body_after (forward L p ?req body)) = Some (Some EOF))"
  have "serveHTTPS_step L p addr t = (if K then Next evs else Stop (Returned None) evs)"
    using serveHTTPS_step_written [OF assms w]
    unfolding evs_def K_def ended_cleanly_after_forward .
  then have step: "K \<Longrightarrow> serveHTTPS_step L p addr t = Next evs"
    "\<not> K \<Longrightarrow> serveHTTPS_step L p addr t = Stop (Returned None) evs"
    by simp_all
  show "continues (serveHTTPS_step L p addr t) \<longleftrightarrow>
      \<not> Closing L (reqMajor req) (reqMinor req) (reqFields req)
      \<and> (body = None
         \<or> map_option LastError (body_after (forward L p ?req body)) = Some (Some EOF))"
    unfolding K_def [symmetric] by (cases K) (simp_all add: step continues_def)
  show "serveHTTPS L p addr (t # ts) =
      (if \<not> Closing L (reqMajor req) (reqMinor req) (reqFields req)
          \<and> (body = None
             \<or> map_option LastError (body_after (forward L p ?req body)) = Some (Some EOF))
       then (fst (serveHTTPS L p addr ts),
             events_of (serveHTTPS_step L p addr t) @ snd (serveHTTPS L p addr ts))
       else (Returned None, events_of (serveHTTPS_step L p addr t)))"
    unfolding K_def [symmetric]
    by (cases K) (simp_all add: serveHTTPS_def step events_of_def case_prod_beta)
qed

text \<open>The witness: a connection that carries a \<open>POST\<close>, whose body the upstream reads to its
  end, and then a \<open>GET\<close>. On the plain path the body reader reports \<open>io.EOF\<close>, and the
  loop serves both requests and waits for a third. Inside a tunnel \<open>forward\<close> has closed
  the body by the time of the decision, \<open>LastError\<close> reports nil, and the loop returns
  after the first response: the \<open>GET\<close> is never read.\<close>

theorem keep_alive_decision_witness:
  "readRequest ex_lib (header (turn_of ex_post)) = (Some ex_post, Some \<lparr>br_e = None\<rparr>, None)
   \<and> \<not> Closing ex_lib (reqMajor ex_post) (reqMinor ex_post) (reqFields ex_post)
   \<and> sent (events_of (serveHTTP_step ex_lib ex_proxy (turn_of ex_post))) \<noteq> []
   \<and> map_option LastError (body_after (proxy ex_lib ex_proxy ex_post (Some \<lparr>br_e = None\<rparr>)))
       = Some (Some EOF)
   \<and> continues (serveHTTP_step ex_lib ex_proxy (turn_of ex_post))
   \<and> serveHTTP ex_lib ex_proxy [turn_of ex_post, turn_of ex_get] =
       (Blocked,
        [Upstream (ex_forwarded ex_post ''5''), Wrote (ex_answer ''keep-alive'') None,
         Upstream (ex_forwarded ex_get ''0''), Wrote (ex_answer ''keep-alive'') None])
   \<and> sent (events_of (serveHTTPS_step ex_lib ex_proxy ''x.example:443'' (turn_of ex_post))) \<noteq> []
   \<and> map_option LastError
        (body_after (forward ex_lib ex_proxy
           (ex_post\<lparr>reqScheme := ''https'', reqRemote := ''x.example:443''\<rparr>) (Some \<lparr>br_e = None\<rparr>)))
       = Some None
   \<and> \<not> continues (serveHTTPS_step ex_lib ex_proxy ''x.example:443'' (turn_of ex_post))
   \<and> serveHTTPS ex_lib ex_proxy ''x.example:443'' [turn_of ex_post, turn_of ex_get] =
       (Returned None, [Upstream (ex_tunnelled ex_post), Wrote (ex_answer ''close'') None])"
proof -
  have written: "sent (events_of (serveHTTP_step ex_lib ex_proxy (turn_of ex_post))) \<noteq> []"
    "sent (events_of (serveHTTPS_step ex_lib ex_proxy ''x.example:443'' (turn_of ex_post))) \<noteq> []"
    by (simp_all add: run_post run_post_tls events_of_def)
  have events: "events_of (serveHTTP_step ex_lib ex_proxy (turn_of ex_post)) =
      [Upstream (ex_forwarded ex_post ''5''), Wrote (ex_answer ''keep-alive'') None]"
    "events_of (serveHTTPS_step ex_lib ex_proxy ''x.example:443'' (turn_of ex_post)) =
      [Upstream (ex_tunnelled ex_post), Wrote (ex_answer ''close'') None]"
    by (simp_all add: run_post run_post_tls events_of_def)
  have rest: "serveHTTP ex_lib ex_proxy [turn_of ex_get] =
      (Blocked, [Upstream (ex_forwarded ex_get ''0''), Wrote (ex_answer ''keep-alive'') None])"
    by (simp add: serveHTTP_def run_get)
  have client: "\<not> Closing ex_lib (reqMajor ex_post) (reqMinor ex_post) (reqFields ex_post)"
    by code_simp
  have plain: "map_option LastError
      (body_after (proxy ex_lib ex_proxy ex_post (Some \<lparr>br_e = None\<rparr>))) = Some (Some EOF)"
    by code_simp
  have tls: "map_option LastError
      (body_after (forward ex_lib ex_proxy
         (ex_post\<lparr>reqScheme := ''https'', reqRemote := ''x.example:443''\<rparr>) (Some \<lparr>br_e = None\<rparr>)))
      = Some None"
    by code_simp
  from keep_alive_decision
      [OF read_post, of ex_proxy "[turn_of ex_get]" "''x.example:443''"]
    written client plain tls
  have "continues (serveHTTP_step ex_lib ex_proxy (turn_of ex_post))"
    "serveHTTP ex_lib ex_proxy [turn_of ex_post, turn_of ex_get] =
       (fst (serveHTTP ex_lib ex_proxy [turn_of ex_get]),
        events_of (serveHTTP_step ex_lib ex_proxy (turn_of ex_post))
          @ snd (serveHTTP ex_lib ex_proxy [turn_of ex_get]))"
    "\<not> continues (serveHTTPS_step ex_lib ex_proxy ''x.example:443'' (turn_of ex_post))"
    "serveHTTPS ex_lib ex_proxy ''x.example:443'' [turn_of ex_post, turn_of ex_get] =
       (Returned None,
        events_of (serveHTTPS_step ex_lib ex_proxy ''x.example:443'' (turn_of ex_post)))"
    by simp_all
  with written client plain tls show ?thesis
    by (simp add: read_post events rest)
qed

section \<open>When the round trip fails\<close>

text \<open>
  Claim C3, as the specification states it: whenever the round-trip callable returns an
  error, the client receives a 500 response whose \<open>Connection\<close> field is \<open>close\<close>, and the
  connection terminates. The status response is built with \<open>Connection: close\<close>, but it
  then goes through the keep-alive decision like any other response. For a \<open>GET\<close> over
  HTTP/1.1 without a body, from a client that did not ask to close, the upstream is
  invoked and fails, the client receives the 500 response with \<open>Connection: keep-alive\<close>,
  and the loop goes on to the next request.
\<close>

theorem upstream_failure_closes_counterexample:
  "upstream (events_of (serveHTTP_step ex_lib ex_failing (turn_of ex_get)))
     = [ex_forwarded ex_get ''0'']
   \<and> snd (RoundTrip ex_failing (ex_forwarded ex_get ''0'')) = Inl (Err ''connection refused'')
   \<and> map respStatus (sent (events_of (serveHTTP_step ex_lib ex_failing (turn_of ex_get)))) = [500]
   \<and> map connection_header (sent (events_of (serveHTTP_step ex_lib ex_failing (turn_of ex_get))))
       = [[''keep-alive'']]
   \<and> continues (serveHTTP_step ex_lib ex_failing (turn_of ex_get))"
proof -
  have "snd (RoundTrip ex_failing (ex_forwarded ex_get ''0'')) = Inl (Err ''connection refused'')"
    by (simp add: ex_failing_def)
  then show ?thesis
    by (simp add: run_get_failing events_of_def continues_def ex_refusal_def
        connection_header_def values_of_def Is_def strcaseeq_def lower_def)
qed

text \<open>
  Claim C3, amended: whenever the round-trip callable returns an error, the response of
  that turn is the 500 status response, subject to the ordinary keep-alive decision. The
  client receives it whenever the writes succeed and the framing helper accepts it, and
  receives nothing else. When the client did not ask to close and the request body ended
  cleanly, its \<open>Connection\<close> field is \<open>keep-alive\<close> and, once it is written, the loop goes
  on to the next request; otherwise the field is \<open>close\<close> and the loop returns nil. This
  holds on the plain path and inside a tunnel.
\<close>

theorem upstream_failure_response:
  assumes "readRequest L (header t) = (Some req, body, None)"
  shows
    "(\<forall>rq \<in> set (upstream (events_of (serveHTTP_step L p t))).
        \<forall>e. snd (RoundTrip p rq) = Inl e \<longrightarrow>
          (io t = None
             \<and> (\<exists>sz. ResponseBodySize L
                        (fst (decide (Closing L (reqMajor req) (reqMinor req) (reqFields req))
                                (body_after (proxy L p req body))
                                (statusResponse L 500
                                   (''Round-trip to upstream failed: '' @ ErrorText L e @ ''.''))))
                        (reqMethod rq) = Inr sz) \<longrightarrow>
             sent (events_of (serveHTTP_step L p t)) =
               [fst (decide (Closing L (reqMajor req) (reqMinor req) (reqFields req))
                       (body_after (proxy L p req body))
                       (statusResponse L 500
                          (''Round-trip to upstream failed: '' @ ErrorText L e @ ''.'')))])
          \<and> (\<forall>r \<in> set (sent (events_of (serveHTTP_step L p t))).
              r = fst (decide (Closing L (reqMajor req) (reqMinor req) (reqFields req))
                         (body_after (proxy L p req body))
                         (statusResponse L 500
                            (''Round-trip to upstream failed: '' @ ErrorText L e @ ''.'')))
            \<and> respStatus r = 500
            \<and> connection_header r =
                [if \<not> Closing L (reqMajor req) (reqMinor req) (reqFields req)
                    \<and> ended_cleanly (body_after (proxy L p req body))
                 then ''keep-alive'' else ''close''])
          \<and> (sent (events_of (serveHTTP_step L p t)) \<noteq> [] \<longrightarrow>
               (continues (serveHTTP_step L p t) \<longleftrightarrow>
                  \<not> Closing L (reqMajor req) (reqMinor req) (reqFields req)
                  \<and> ended_cleanly (body_after (proxy L p req body)))
             \<and> serveHTTP L p (t # ts) =
                 (if \<not> Closing L (reqMajor req) (reqMinor req) (reqFields req)
                     \<and> ended_cleanly (body_after (proxy L p req body))
                  then (fst (serveHTTP L p ts),
                        events_of (serveHTTP_step L p t) @ snd (serveHTTP L p ts))
                  else (Returned None, events_of (serveHTTP_step L p t)))))
     \<and> (\<forall>rq \<in> set (upstream (events_of (serveHTTPS_step L p addr t))).
        \<forall>e. snd (RoundTrip p rq) = Inl e \<longrightarrow>
          (io t = None
             \<and> (\<exists>sz. ResponseBodySize L
                        (fst (decide (Closing L (reqMajor req) (reqMinor req) (reqFields req))
                                (body_after
                                   (forward L p (req\<lparr>reqScheme := ''https'', reqRemote := addr\<rparr>) body))
                                (statusResponse L 500
                                   (''Round-trip to upstream failed: '' @ ErrorText L e @ ''.''))))
                        (reqMethod rq) = Inr sz) \<longrightarrow>
             sent (events_of (serveHTTPS_step L p addr t)) =
               [fst (decide (Closing L (reqMajor req) (reqMinor req) (reqFields req))
                       (body_after
                          (forward L p (req\<lparr>reqScheme := ''https'', reqRemote := addr\<rparr>) body))
                       (statusResponse L 500
                          (''Round-trip to upstream failed: '' @ ErrorText L e @ ''.'')))])
          \<and> (\<forall>r \<in> set (sent (events_of (serveHTTPS_step L p addr t))).
              r = fst (decide (Closing L (reqMajor req) (reqMinor req) (reqFields req))
                         (body_after
                            (forward L p (req\<lparr>reqScheme := ''https'', reqRemote := addr\<rparr>) body))
                         (statusResponse L 500
                            (''Round-trip to upstream failed: '' @ ErrorText L e @ ''.'')))
            \<and> respStatus r = 500
            \<and> connection_header r =
                [if \<not> Closing L (reqMajor req) (reqMinor req) (reqFields req)
                    \<and> ended_cleanly
                        (body_after
                           (forward L p (req\<lparr>reqScheme := ''https'', reqRemote := addr\<rparr>) body))
                 then ''keep-alive'' else ''close''])
          \<and> (sent (events_of (serveHTTPS_step L p addr t)) \<noteq> [] \<longrightarrow>
               (continues (serveHTTPS_step L p addr t) \<longleftrightarrow>
                  \<not> Closing L (reqMajor req) (reqMinor req) (reqFields req)
                  \<and> ended_cleanly
                      (body_after
                         (forward L p (req\<lparr>reqScheme := ''https'', reqRemote := addr\<rparr>) body)))
             \<and> serveHTTPS L p addr (t # ts) =
                 (if \<not> Closing L (reqMajor req) (reqMinor req) (reqFields req)
                     \<and> ended_cleanly
                         (body_after
                            (forward L p (req\<lparr>reqScheme := ''https'', reqRemote := addr\<rparr>) body))
                  then (fst (serveHTTPS L p addr ts),
                        events_of (serveHTTPS_step L p addr t) @ snd (serveHTTPS L p addr ts))
                  else (Returned None, events_of (serveHTTPS_step L p addr t)))))"
proof (intro conjI ballI allI impI; (elim conjE exE)?)
  let ?S = "serveHTTP_step L p t"
  let ?c = "Closing L (reqMajor req) (reqMinor req) (reqFields req)"
  let ?b = "body_after (proxy L p req body)"
  fix rq e
  assume up: "rq \<in> set (upstream (events_of ?S))" and fail: "snd (RoundTrip p rq) = Inl e"
  let ?R = "fst (decide ?c ?b
      (statusResponse L 500 (''Round-trip to upstream failed: '' @ ErrorText L e @ ''.'')))"
  note step = serveHTTP_step_failure [OF assms up fail]
  { fix sz assume "io t = None" "ResponseBodySize L ?R (reqMethod rq) = Inr sz"
    then show "sent (events_of ?S) = [?R]"
      unfolding step by (simp add: respond_received) }
  { fix r assume "r \<in> set (sent (events_of ?S))"
    then have r: "r = ?R"
      unfolding step using respond_sent by fastforce
    then show "r = ?R" .
    from r show "respStatus r = 500"
      "connection_header r = [if \<not> ?c \<and> ended_cleanly ?b then ''keep-alive'' else ''close'']"
      by (simp_all add: decide_status decide_connection statusResponse_status) }
  { assume w: "sent (events_of ?S) \<noteq> []"
    define evs where "evs = events_of ?S"
    define K where "K \<longleftrightarrow> \<not> ?c \<and> ended_cleanly ?b"
    have "?S = (if K then Next evs else Stop (Returned None) evs)"
      using serveHTTP_step_written [OF assms w] unfolding evs_def K_def .
    then have st: "K \<Longrightarrow> ?S = Next evs" "\<not> K \<Longrightarrow> ?S = Stop (Returned None) evs"
      by simp_all
    show "continues ?S \<longleftrightarrow> \<not> ?c \<and> ended_cleanly ?b"
      unfolding K_def [symmetric] by (cases K) (simp_all add: st continues_def)
    show "serveHTTP L p (t # ts) =
        (if \<not> ?c \<and> ended_cleanly ?b
         then (fst (serveHTTP L p ts), events_of ?S @ snd (serveHTTP L p ts))
         else (Returned None, events_of ?S))"
      unfolding K_def [symmetric]
      by (cases K) (simp_all add: serveHTTP_def st events_of_def case_prod_beta) }
next
  let ?S = "serveHTTPS_step L p addr t"
  let ?c = "Closing L (reqMajor req) (reqMinor req) (reqFields req)"
  let ?b = "body_after (forward L p (req\<lparr>reqScheme := ''https'', reqRemote := addr\<rparr>) body)"
  fix rq e
  assume up: "rq \<in> set (upstream (events_of ?S))" and fail: "snd (RoundTrip p rq) = Inl e"
  let ?R = "fst (decide ?c ?b
      (statusResponse L 500 (''Round-trip to upstream failed: '' @ ErrorText L e @ ''.'')))"
  note step = serveHTTPS_step_failure [OF assms up fail]
  { fix sz assume "io t = None" "ResponseBodySize L ?R (reqMethod rq) = Inr sz"
    then show "sent (events_of ?S) = [?R]"
      unfolding step by (simp add: respond_received) }
  { fix r assume "r \<in> set (sent (events_of ?S))"
    then have r: "r = ?R"
      unfolding step using respond_sent by fastforce
    then show "r = ?R" .
    from r show "respStatus r = 500"
      "connection_header r = [if \<not> ?c \<and> ended_cleanly ?b then ''keep-alive'' else ''close'']"
      by (simp_all add: decide_status decide_connection statusResponse_status) }
  { assume w: "sent (events_of ?S) \<noteq> []"
    define evs where "evs = events_of ?S"
    define K where "K \<longleftrightarrow> \<not> ?c \<and> ended_cleanly ?b"
    have "?S = (if K then Next evs else Stop (Returned None) evs)"
      using serveHTTPS_step_written [OF assms w] unfolding evs_def K_def .
    then have st: "K \<Longrightarrow> ?S = Next evs" "\<not> K \<Longrightarrow> ?S = Stop (Returned None) evs"
      by simp_all
    show "continues ?S \<longleftrightarrow> \<not> ?c \<and> ended_cleanly ?b"
      unfolding K_def [symmetric] by (cases K) (simp_all add: st continues_def)
    show "serveHTTPS L p addr (t # ts) =
        (if \<not> ?c \<and> ended_cleanly ?b
         then (fst (serveHTTPS L p addr ts), events_of ?S @ snd (serveHTTPS L p addr ts))
         else (Returned None, events_of ?S))"
      unfolding K_def [symmetric]
      by (cases K) (simp_all add: serveHTTPS_def st events_of_def case_prod_beta) }
qed

text \<open>The witness: the failing upstream behind two \<open>GET\<close>s on one connection, on the plain
  path and inside a tunnel. The writes succeed and the framing helper accepts the
  response, so the client receives the 500 response, with \<open>Connection: keep-alive\<close>; the
  loop goes on, serves the second request the same way and waits for a third.\<close>

theorem upstream_failure_response_witness:
  "readRequest ex_lib (header (turn_of ex_get)) = (Some ex_get, None, None)
   \<and> io (turn_of ex_get) = None
   \<and> upstream (events_of (serveHTTP_step ex_lib ex_failing (turn_of ex_get)))
       = [ex_forwarded ex_get ''0'']
   \<and> snd (RoundTrip ex_failing (ex_forwarded ex_get ''0'')) = Inl (Err ''connection refused'')
   \<and> ResponseBodySize ex_lib (ex_refusal ''keep-alive'') ''GET'' = Inr 50
   \<and> sent (events_of (serveHTTP_step ex_lib ex_failing (turn_of ex_get)))
       = [ex_refusal ''keep-alive'']
   \<and> respStatus (ex_refusal ''keep-alive'') = 500
   \<and> connection_header (ex_refusal ''keep-alive'') = [''keep-alive'']
   \<and> continues (serveHTTP_step ex_lib ex_failing (turn_of ex_get))
   \<and> serveHTTP ex_lib ex_failing [turn_of ex_get, turn_of ex_get] =
       (Blocked,
        [Upstream (ex_forwarded ex_get ''0''), Wrote (ex_refusal ''keep-alive'') None,
         Upstream (ex_forwarded ex_get ''0''), Wrote (ex_refusal ''keep-alive'') None])
   \<and> upstream (events_of (serveHTTPS_step ex_lib ex_failing ''x.example:443'' (turn_of ex_get)))
       = [ex_tunnelled ex_get]
   \<and> sent (events_of (serveHTTPS_step ex_lib ex_failing ''x.example:443'' (turn_of ex_get)))
       = [ex_refusal ''keep-alive'']
   \<and> continues (serveHTTPS_step ex_lib ex_failing ''x.example:443'' (turn_of ex_get))
   \<and> serveHTTPS ex_lib ex_failing ''x.example:443'' [turn_of ex_get, turn_of ex_get] =
       (Blocked,
        [Upstream (ex_tunnelled ex_get), Wrote (ex_refusal ''keep-alive'') None,
         Upstream (ex_tunnelled ex_get), Wrote (ex_refusal ''keep-alive'') None])"
proof -
  let ?S = "serveHTTP_step ex_lib ex_failing (turn_of ex_get)"
  let ?T = "serveHTTPS_step ex_lib ex_failing ''x.example:443'' (turn_of ex_get)"
  have up: "upstream (events_of ?S) = [ex_forwarded ex_get ''0'']"
    "upstream (events_of ?T) = [ex_tunnelled ex_get]"
    by (simp_all add: run_get_failing run_get_failing_tls events_of_def)
  have events: "events_of ?S =
      [Upstream (ex_forwarded ex_get ''0''), Wrote (ex_refusal ''keep-alive'') None]"
    "events_of ?T = [Upstream (ex_tunnelled ex_get), Wrote (ex_refusal ''keep-alive'') None]"
    by (simp_all add: run_get_failing run_get_failing_tls events_of_def)
  have rest: "serveHTTP ex_lib ex_failing [turn_of ex_get] =
      (Blocked, [Upstream (ex_forwarded ex_get ''0''), Wrote (ex_refusal ''keep-alive'') None])"
    "serveHTTPS ex_lib ex_failing ''x.example:443'' [turn_of ex_get] =
      (Blocked, [Upstream (ex_tunnelled ex_get), Wrote (ex_refusal ''keep-alive'') None])"
    by (simp_all add: serveHTTP_def serveHTTPS_def run_get_failing run_get_failing_tls)
  have fails: "snd (RoundTrip ex_failing r) = Inl (Err ''connection refused'')" for r
    by (simp add: ex_failing_def)
  have wire: "io (turn_of ex_get) = None"
    by (simp add: turn_of_def)
  have methods: "reqMethod (ex_forwarded ex_get ''0'') = ''GET''"
    "reqMethod (ex_tunnelled ex_get) = ''GET''"
    by (simp_all add: ex_forwarded_def ex_tunnelled_def ex_get_def)
  have client: "\<not> Closing ex_lib (reqMajor ex_get) (reqMinor ex_get) (reqFields ex_get)"
    by code_simp
  have clean: "ended_cleanly (body_after (proxy ex_lib ex_failing ex_get None))"
    "ended_cleanly (body_after (forward ex_lib ex_failing
        (ex_get\<lparr>reqScheme := ''https'', reqRemote := ''x.example:443''\<rparr>) None))"
    by (simp_all add: proxy_body_None_iff [THEN iffD2] forward_body_None_iff [THEN iffD2]
        ended_cleanly_def)
  have status: "statusResponse ex_lib 500
      (''Round-trip to upstream failed: '' @ ErrorText ex_lib (Err ''connection refused'') @ ''.'')
      = \<lparr>respStatus = 500, respReason = ''Internal Server Error'', respMajor = 1, respMinor = 1,
         respFields = [\<lparr>Name = ''Connection'', Value = ''close''\<rparr>,
                       \<lparr>Name = ''Content-Type'', Value = ''text/plain; charset=utf-8''\<rparr>,
                       \<lparr>Name = ''Content-Length'', Value = ''50''\<rparr>],
         respBody = Some ''Round-trip to upstream failed: connection refused.''\<rparr>"
    by code_simp
  have refusal: "fst (decide c b
      (statusResponse ex_lib 500
         (''Round-trip to upstream failed: '' @ ErrorText ex_lib (Err ''connection refused'') @ ''.'')))
      = ex_refusal (if \<not> c \<and> ended_cleanly b then ''keep-alive'' else ''close'')" for c b
    unfolding status
    by (simp add: fst_decide SetField_def Add_def Filter_def Is_def strcaseeq_def lower_def
        ex_refusal_def)
  have size: "ResponseBodySize ex_lib (ex_refusal ''keep-alive'') ''GET'' = Inr 50"
    by code_simp
  have answer: "fst (decide
        (Closing ex_lib (reqMajor ex_get) (reqMinor ex_get) (reqFields ex_get))
        (body_after (proxy ex_lib ex_failing ex_get None))
        (statusResponse ex_lib 500
           (''Round-trip to upstream failed: '' @ ErrorText ex_lib (Err ''connection refused'')
              @ ''.'')))
      = ex_refusal ''keep-alive''"
    "fst (decide
        (Closing ex_lib (reqMajor ex_get) (reqMinor ex_get) (reqFields ex_get))
        (body_after (forward ex_lib ex_failing
           (ex_get\<lparr>reqScheme := ''https'', reqRemote := ''x.example:443''\<rparr>) None))
        (statusResponse ex_lib 500
           (''Round-trip to upstream failed: '' @ ErrorText ex_lib (Err ''connection refused'')
              @ ''.'')))
      = ex_refusal ''keep-alive''"
    using client clean by (simp_all only: refusal simp_thms if_True)
  have mem: "ex_forwarded ex_get ''0'' \<in> set (upstream (events_of ?S))"
    "ex_tunnelled ex_get \<in> set (upstream (events_of ?T))"
    by (simp_all add: up)
  note both = upstream_failure_response
      [OF read_get, of ex_failing "[turn_of ex_get]" "''x.example:443''"]
  note plain = both [THEN conjunct1, THEN bspec, OF mem(1), THEN spec, THEN mp, OF fails,
      unfolded answer]
  note tls = both [THEN conjunct2, THEN bspec, OF mem(2), THEN spec, THEN mp, OF fails,
      unfolded answer]
  have got: "sent (events_of ?S) = [ex_refusal ''keep-alive'']"
    "sent (events_of ?T) = [ex_refusal ''keep-alive'']"
    using plain [THEN conjunct1] tls [THEN conjunct1] wire size
    by (simp_all only: methods simp_thms) blast+
  have keep: "(\<not> Closing ex_lib (reqMajor ex_get) (reqMinor ex_get) (reqFields ex_get)
      \<and> ended_cleanly (body_after (proxy ex_lib ex_failing ex_get None))) = True"
    "(\<not> Closing ex_lib (reqMajor ex_get) (reqMinor ex_get) (reqFields ex_get)
      \<and> ended_cleanly (body_after (forward ex_lib ex_failing
           (ex_get\<lparr>reqScheme := ''https'', reqRemote := ''x.example:443''\<rparr>) None))) = True"
    using client clean by simp_all
  have written: "sent (events_of ?S) \<noteq> []" "sent (events_of ?T) \<noteq> []"
    by (simp_all add: got)
  note plain_loop = plain [THEN conjunct2, THEN conjunct2, THEN mp, OF written(1),
      unfolded keep if_True simp_thms]
  note tls_loop = tls [THEN conjunct2, THEN conjunct2, THEN mp, OF written(2),
      unfolded keep if_True simp_thms]
  from got plain_loop tls_loop
  have "sent (events_of ?S) = [ex_refusal ''keep-alive'']"
    "continues ?S"
    "serveHTTP ex_lib ex_failing [turn_of ex_get, turn_of ex_get] =
       (fst (serveHTTP ex_lib ex_failing [turn_of ex_get]),
        events_of ?S @ snd (serveHTTP ex_lib ex_failing [turn_of ex_get]))"
    "sent (events_of ?T) = [ex_refusal ''keep-alive'']"
    "continues ?T"
    "serveHTTPS ex_lib ex_failing ''x.example:443'' [turn_of ex_get, turn_of ex_get] =
       (fst (serveHTTPS ex_lib ex_failing ''x.example:443'' [turn_of ex_get]),
        events_of ?T @ snd (serveHTTPS ex_lib ex_failing ''x.example:443'' [turn_of ex_get]))"
    by blast+
  moreover have "respStatus (ex_refusal ''keep-alive'') = 500"
    "connection_header (ex_refusal ''keep-alive'') = [''keep-alive'']"
    by (simp_all add: ex_refusal_def connection_header_def values_of_def Is_def strcaseeq_def
        lower_def)
  ultimately show ?thesis
    using up fails [of "ex_forwarded ex_get ''0''"] wire size
    by (simp add: read_get events rest)
qed

section \<open>What the upstream is handed\<close>

lemma run_loop_upstream:
  "rq \<in> set (upstream (snd (run_loop f ts))) \<Longrightarrow>
     \<exists>t \<in> set ts. rq \<in> set (upstream (events_of (f t)))"
proof (induction ts)
  case Nil
  then show ?case by simp
next
  case (Cons t ts)
  then show ?case
    by (cases "f t") (auto simp: events_of_def upstream_append split: prod.splits)
qed

lemma serveHTTP_step_upstream:
  assumes "rq \<in> set (upstream (events_of (serveHTTP_step L p t)))"
  shows "request_connection rq = [] \<and> reqMajor rq = 1 \<and> reqMinor rq = 1"
proof -
  obtain req body err where rd: "readRequest L (header t) = (req, body, err)"
    by (metis prod.exhaust)
  from assms rd obtain r where r: "req = Some r" "err = None" "reqMethod r \<noteq> ''CONNECT''"
    by (cases req; cases err)
       (auto simp: serveHTTP_step_def events_of_def reject_def writeResponse_def
          split: if_splits sum.splits)
  obtain resp e req' body' evs where px: "proxy L p r body = ((resp, e), req', body', evs)"
    by (metis prod.exhaust)
  from assms have "rq \<in> set (upstream evs)"
    using serveHTTP_step_respond [of L t r body p] rd r px by (simp add: respond_upstream)
  from proxy_upstream(1,3,4,5) [OF px this] show ?thesis by simp
qed

lemma serveHTTPS_step_upstream:
  assumes "rq \<in> set (upstream (events_of (serveHTTPS_step L p addr t)))"
  shows "request_connection rq = [''keep-alive'']"
proof -
  obtain req body err where rd: "readRequest L (header t) = (req, body, err)"
    by (metis prod.exhaust)
  from assms rd obtain r where r: "req = Some r" "err = None"
    by (cases req; cases err)
       (auto simp: serveHTTPS_step_def events_of_def reject_def writeResponse_def
          split: if_splits sum.splits)
  let ?req = "r\<lparr>reqScheme := ''https'', reqRemote := addr\<rparr>"
  obtain resp e req' body' evs where fw: "forward L p ?req body = ((resp, e), req', body', evs)"
    by (metis prod.exhaust)
  from assms have "rq \<in> set (upstream evs)"
    using serveHTTPS_step_respond [of L t r body p addr] rd r fw by (simp add: respond_upstream)
  with forward_upstream(1,3) [OF fw] show ?thesis by simp
qed

text \<open>A tunnel hands the upstream only what the loop inside it does.\<close>

lemma refuse_upstream_snd: "upstream (snd (refuse L wio resp req)) = []"
  using refuse_upstream [of L wio resp req] by (cases "refuse L wio resp req") simp

lemma connect_upstream:
  "rq \<in> set (upstream (snd (connect L p wio tn req))) \<Longrightarrow>
     rq \<in> set (upstream (snd (serveHTTPS L p (reqURI req) (session tn))))"
  by (auto simp: connect_def Let_def refuse_upstream_snd dest: refuse_upstream
      split: if_splits sum.splits prod.splits forged.splits option.splits)

text \<open>
  Claim C7, as the specification states it: every request passed to the round-trip
  callable carries \<open>Connection: keep-alive\<close>, on the plain path too. On the plain path the
  request is scrubbed before the call, \<open>Connection\<close> is on the blacklist, and nothing puts
  it back: the \<open>GET\<close> of the example reaches the upstream without any \<open>Connection\<close> field.
\<close>

theorem plain_upstream_request_counterexample:
  "map request_connection (upstream (snd (Serve ex_lib ex_proxy [turn_of ex_get]))) = [[]]"
  by (simp add: Serve_def serveHTTP_def run_get request_connection_def values_of_def
      ex_forwarded_def Is_def strcaseeq_def lower_def)

text \<open>
  Claim C7, amended: inside a tunnel, every request passed to the round-trip callable
  carries exactly one \<open>Connection\<close> field, with the value \<open>keep-alive\<close>; on the plain path,
  every request passed to the callable is an HTTP/1.1 request without any \<open>Connection\<close>
  field.
\<close>

theorem upstream_connection_header:
  "(\<forall>rq \<in> set (upstream (snd (serveHTTPS L p addr ts))).
       request_connection rq = [''keep-alive''])
   \<and> (\<forall>rq \<in> set (upstream (snd (Serve L p ts))).
         request_connection rq = [] \<and> reqMajor rq = 1 \<and> reqMinor rq = 1)"
proof (intro conjI ballI)
  fix rq assume "rq \<in> set (upstream (snd (serveHTTPS L p addr ts)))"
  then show "request_connection rq = [''keep-alive'']"
    unfolding serveHTTPS_def by (blast dest: run_loop_upstream serveHTTPS_step_upstream)
next
  fix rq assume "rq \<in> set (upstream (snd (Serve L p ts)))"
  then obtain t where "rq \<in> set (upstream (events_of (serveHTTP_step L p t)))"
    unfolding Serve_def serveHTTP_def by (blast dest: run_loop_upstream)
  then have "request_connection rq = [] \<and> reqMajor rq = 1 \<and> reqMinor rq = 1"
    by (rule serveHTTP_step_upstream)
  then show "request_connection rq = []" "reqMajor rq = 1" "reqMinor rq = 1" by simp_all
qed

theorem upstream_connection_header_witness:
  "upstream (snd (serveHTTPS ex_lib ex_proxy ''x.example:443'' [turn_of ex_get]))
     = [ex_tunnelled ex_get]
   \<and> request_connection (ex_tunnelled ex_get) = [''keep-alive'']
   \<and> upstream (snd (Serve ex_lib ex_proxy [turn_of ex_get])) = [ex_forwarded ex_get ''0'']
   \<and> request_connection (ex_forwarded ex_get ''0'') = []
   \<and> reqMajor (ex_forwarded ex_get ''0'') = 1
   \<and> reqMinor (ex_forwarded ex_get ''0'') = 1"
proof -
  have tls: "upstream (snd (serveHTTPS ex_lib ex_proxy ''x.example:443'' [turn_of ex_get]))
      = [ex_tunnelled ex_get]"
    by (simp add: serveHTTPS_def run_get_tls)
  have plain: "upstream (snd (Serve ex_lib ex_proxy [turn_of ex_get])) = [ex_forwarded ex_get ''0'']"
    by (simp add: Serve_def serveHTTP_def run_get)
  from upstream_connection_header [of ex_lib ex_proxy "''x.example:443''" "[turn_of ex_get]"]
    tls plain
  show ?thesis by simp
qed

section \<open>A header that does not parse\<close>

text \<open>On either loop, the answer to a malformed header is never written: taking the
  method from the request that was not read ends the loop with a panic.\<close>

lemma malformed_header_panics:
  "header t = Inl ErrRequestHeader \<Longrightarrow>
     serveHTTP_step L p t = Stop Panicked [] \<and> serveHTTPS_step L p addr t = Stop Panicked []"
  by (simp add: serveHTTP_step_def serveHTTPS_step_def readRequest_def reject_def)

text \<open>
  Claim C9 says that on a malformed request header the loop writes a 404 status response
  and terminates, and that this write is well defined although no request was parsed.
  The code builds the 404 response and then reads \<open>req.Method\<close> of the nil request: on a
  connection whose first header is malformed, both loops panic and nothing is written.
\<close>

theorem malformed_header_run:
  "Serve ex_lib ex_proxy [ex_malformed] = (Panicked, [])
   \<and> serveHTTPS ex_lib ex_proxy ''x.example:443'' [ex_malformed] = (Panicked, [])"
  by (simp add: Serve_def serveHTTP_def serveHTTPS_def ex_malformed_def serveHTTP_step_def
      serveHTTPS_step_def readRequest_def reject_def)

section \<open>CONNECT without an authority\<close>

text \<open>\<open>Proxy.connect\<close> itself refuses with a 500 response, before it forges anything, when
  the authority is nil or has no certificate.\<close>

lemma connect_without_authority:
  assumes "Authority p = None \<or> (\<exists>a. Authority p = Some a \<and> Certificate a = [])"
  shows "connect L p wio tn req =
      refuse L wio
        (statusResponse L 500
           (''Can't serve CONNECT requests without Proxy.Authority.%!(EXTRA string=''
              @ reqURI req @ '')'')) req"
  using assms by (auto simp: connect_def)

text \<open>
  Claim C8 says that with no authority a \<open>CONNECT\<close> request forges no certificate, never
  completes the tunnel, and is answered with a 500 status response. The connection loop
  that \<open>Serve\<close> runs does not call \<open>Proxy.connect\<close>: where the tunnel is to be set up it
  returns nil. With no authority, a \<open>CONNECT example.com:443\<close> ends the connection
  without any event: no certificate and no tunnel, but no response either.
\<close>

theorem connect_request_run:
  "Authority ex_proxy = None
   \<and> Serve ex_lib ex_proxy [turn_of ex_connect] = (Returned None, [])"
  by (simp add: Serve_def serveHTTP_def turn_of_def ex_connect_def ex_proxy_def ex_lib_def
      serveHTTP_step_def readRequest_def ex_BodySize_def values_of_def)

section \<open>The template of a forged leaf\<close>

lemma SetBytes_snoc: "SetBytes (bs @ [b]) = SetBytes bs * 256 + of_char b"
  by (simp add: SetBytes_def)

lemma big_endian_snoc: "big_endian (bs @ [b]) = big_endian bs * 256 + of_char b"
proof -
  have "(\<Sum>i<length bs. (of_char ((bs @ [b]) ! i) :: nat) * 256 ^ (length bs - i))
      = (\<Sum>i<length bs. (of_char (bs ! i) * 256 ^ (length bs - 1 - i)) * 256)"
  proof (rule sum.cong)
    fix i assume "i \<in> {..<length bs}"
    then have i: "i < length bs" by simp
    then have "length bs - i = Suc (length bs - 1 - i)" by simp
    with i show "(of_char ((bs @ [b]) ! i) :: nat) * 256 ^ (length bs - i)
        = (of_char (bs ! i) * 256 ^ (length bs - 1 - i)) * 256"
      by (simp add: nth_append)
  qed simp
  then show ?thesis
    by (simp add: big_endian_def sum_distrib_right)
qed

text \<open>\<open>SetBytes\<close> computes the big-endian number.\<close>

lemma SetBytes_big_endian: "SetBytes bs = big_endian bs"
proof (induction bs rule: rev_induct)
  case Nil
  show ?case by (simp add: SetBytes_def big_endian_def)
next
  case (snoc b bs)
  then show ?case by (simp add: SetBytes_snoc big_endian_snoc)
qed

lemma SetBytes_example:
  "SetBytes [CHR 0x01, CHR 0x02] = 258 \<and> big_endian [CHR 0x01, CHR 0x02] = 258"
  by (simp add: SetBytes_def big_endian_def lessThan_Suc numeral_2_eq_2)

text \<open>A certificate that \<open>forge\<close> returns is the signature over this template, made with
  a key generated from the byte source seeded with the digest of the host name.\<close>

lemma forge_signs_template:
  assumes "forge L p h = ForgeOK cert"
  shows "\<exists>a ca rest x509ca key rng rng'.
      Authority p = Some a \<and> Certificate a = ca # rest \<and> ParseCertificate L ca = Inr x509ca
    \<and> GenerateKey L \<lparr>rng_state = Sum256 L h\<rparr> 2048 = (Inr key, rng)
    \<and> CreateCertificate L rng (forge_template L x509ca h) x509ca (PublicKey key) (PrivateKey a)
        = (Inr (hd (Certificate cert)), rng')
    \<and> Certificate cert = [hd (Certificate cert), ca] \<and> PrivateKey cert = key"
  using assms
  by (auto simp: forge_def Let_def split: option.splits list.splits sum.splits prod.splits)

text \<open>On the example authority the toy cryptography forges these certificates.\<close>

lemma run_forge_name:
  "forge ex_lib ex_mitm ''example.com'' = ForgeOK (ex_leaf ''example.com'' ''example.com'')"
  by (simp add: forge_def ex_lib_def ex_mitm_def ex_ParseCertificate_def ex_GenerateKey_def
      ex_CreateCertificate_def forge_template_def Let_def ex_ParseIP_def ex_leaf_def)

lemma run_forge_ip:
  "forge ex_lib ex_mitm ''127.0.0.1'' =
     ForgeOK (ex_leaf ''127.0.0.1'' [CHR 0x7F, CHR 0x00, CHR 0x00, CHR 0x01])"
  by (simp add: forge_def ex_lib_def ex_mitm_def ex_ParseCertificate_def ex_GenerateKey_def
      ex_CreateCertificate_def forge_template_def Let_def ex_ParseIP_def ex_leaf_def)

text \<open>
  Claim C6: for every host name \<open>h\<close>, the serial number of the leaf template that \<open>forge\<close>
  builds is the SHA-256 digest of \<open>h\<close> read as a big-endian unsigned integer; when \<open>h\<close>
  parses as an IP address the template has exactly that address and no DNS name, and
  otherwise it has exactly the DNS name \<open>h\<close> and no IP address. The template is the one
  \<open>forge\<close> signs: whenever \<open>forge\<close> returns a certificate, its leaf is what
  \<open>x509.CreateCertificate\<close> made of a template with these properties, under the parsed
  first certificate of the authority and the authority's key, for the key generated from
  the byte source seeded with the digest.
\<close>

theorem forged_template:
  "(\<forall>x509ca.
       SerialNumber (forge_template L x509ca h) = big_endian (Sum256 L h)
     \<and> (\<forall>ip. ParseIP L h = Some ip \<longrightarrow>
           IPAddresses (forge_template L x509ca h) = [ip]
         \<and> DNSNames (forge_template L x509ca h) = [])
     \<and> (ParseIP L h = None \<longrightarrow>
           DNSNames (forge_template L x509ca h) = [h]
         \<and> IPAddresses (forge_template L x509ca h) = []))
   \<and> (\<forall>cert. forge L p h = ForgeOK cert \<longrightarrow>
        (\<exists>a ca rest x509ca key rng rng' template der.
            Authority p = Some a \<and> Certificate a = ca # rest
          \<and> ParseCertificate L ca = Inr x509ca
          \<and> GenerateKey L \<lparr>rng_state = Sum256 L h\<rparr> 2048 = (Inr key, rng)
          \<and> CreateCertificate L rng template x509ca (PublicKey key) (PrivateKey a)
              = (Inr der, rng')
          \<and> cert = \<lparr>Certificate = [der, ca], PrivateKey = key\<rparr>
          \<and> template = forge_template L x509ca h
          \<and> SerialNumber template = big_endian (Sum256 L h)
          \<and> Subject template = Subject x509ca
          \<and> NotBefore template = NotBefore x509ca
          \<and> NotAfter template = NotAfter x509ca
          \<and> (\<forall>ip. ParseIP L h = Some ip \<longrightarrow>
                IPAddresses template = [ip] \<and> DNSNames template = [])
          \<and> (ParseIP L h = None \<longrightarrow>
                DNSNames template = [h] \<and> IPAddresses template = [])))"
proof (intro conjI allI impI)
  fix cert assume ok: "forge L p h = ForgeOK cert"
  then obtain a ca rest x509ca key rng rng' der where run:
    "Authority p = Some a" "Certificate a = ca # rest" "ParseCertificate L ca = Inr x509ca"
    "GenerateKey L \<lparr>rng_state = Sum256 L h\<rparr> 2048 = (Inr key, rng)"
    "CreateCertificate L rng (forge_template L x509ca h) x509ca (PublicKey key) (PrivateKey a)
       = (Inr der, rng')"
    "cert = \<lparr>Certificate = [der, ca], PrivateKey = key\<rparr>"
    by (auto simp: forge_def Let_def split: option.splits list.splits sum.splits prod.splits)
  have props: "SerialNumber (forge_template L x509ca h) = big_endian (Sum256 L h)"
    "Subject (forge_template L x509ca h) = Subject x509ca"
    "NotBefore (forge_template L x509ca h) = NotBefore x509ca"
    "NotAfter (forge_template L x509ca h) = NotAfter x509ca"
    "\<forall>ip. ParseIP L h = Some ip \<longrightarrow>
       IPAddresses (forge_template L x509ca h) = [ip] \<and> DNSNames (forge_template L x509ca h) = []"
    "ParseIP L h = None \<longrightarrow>
       DNSNames (forge_template L x509ca h) = [h] \<and> IPAddresses (forge_template L x509ca h) = []"
    by (auto simp: forge_template_def Let_def SetBytes_big_endian split: option.splits)
  from run props show "\<exists>a ca rest x509ca key rng rng' template der.
            Authority p = Some a \<and> Certificate a = ca # rest
          \<and> ParseCertificate L ca = Inr x509ca
          \<and> GenerateKey L \<lparr>rng_state = Sum256 L h\<rparr> 2048 = (Inr key, rng)
          \<and> CreateCertificate L rng template x509ca (PublicKey key) (PrivateKey a)
              = (Inr der, rng')
          \<and> cert = \<lparr>Certificate = [der, ca], PrivateKey = key\<rparr>
          \<and> template = forge_template L x509ca h
          \<and> SerialNumber template = big_endian (Sum256 L h)
          \<and> Subject template = Subject x509ca
          \<and> NotBefore template = NotBefore x509ca
          \<and> NotAfter template = NotAfter x509ca
          \<and> (\<forall>ip. ParseIP L h = Some ip \<longrightarrow>
                IPAddresses template = [ip] \<and> DNSNames template = [])
          \<and> (ParseIP L h = None \<longrightarrow>
                DNSNames template = [h] \<and> IPAddresses template = [])"
    by - (rule exI [of _ a], rule exI [of _ ca], rule exI [of _ rest], rule exI [of _ x509ca],
        rule exI [of _ key], rule exI [of _ rng], rule exI [of _ rng'],
        rule exI [of _ "forge_template L x509ca h"], rule exI [of _ der], simp)
qed (auto simp: forge_template_def Let_def SetBytes_big_endian split: option.splits)

text \<open>The witness: \<open>forge\<close> run on the example authority for a DNS name and for an IP
  address. Both runs return a certificate, so the theorem yields the template that was
  signed; the authority has one certificate, which parses to \<open>ex_ca\<close>, so that template
  is \<open>forge_template ex_lib ex_ca\<close> of the host.\<close>

theorem forged_template_witness:
  "forge ex_lib ex_mitm ''example.com'' = ForgeOK (ex_leaf ''example.com'' ''example.com'')
   \<and> ParseCertificate ex_lib ''Example CA'' = Inr ex_ca
   \<and> ParseIP ex_lib ''example.com'' = None
   \<and> fst (CreateCertificate ex_lib
            (snd (GenerateKey ex_lib \<lparr>rng_state = Sum256 ex_lib ''example.com''\<rparr> 2048))
            (forge_template ex_lib ex_ca ''example.com'') ex_ca
            (''public '' @ ex_Sum256 ''example.com'') ex_key)
       = Inr ''leaf example.com''
   \<and> DNSNames (forge_template ex_lib ex_ca ''example.com'') = [''example.com'']
   \<and> IPAddresses (forge_template ex_lib ex_ca ''example.com'') = []
   \<and> SerialNumber (forge_template ex_lib ex_ca ''example.com'')
       = big_endian (Sum256 ex_lib ''example.com'')
   \<and> forge ex_lib ex_mitm ''127.0.0.1'' =
       ForgeOK (ex_leaf ''127.0.0.1'' [CHR 0x7F, CHR 0x00, CHR 0x00, CHR 0x01])
   \<and> ParseIP ex_lib ''127.0.0.1'' = Some [CHR 0x7F, CHR 0x00, CHR 0x00, CHR 0x01]
   \<and> IPAddresses (forge_template ex_lib ex_ca ''127.0.0.1'')
       = [[CHR 0x7F, CHR 0x00, CHR 0x00, CHR 0x01]]
   \<and> DNSNames (forge_template ex_lib ex_ca ''127.0.0.1'') = []
   \<and> SerialNumber (forge_template ex_lib ex_ca ''127.0.0.1'')
       = big_endian (Sum256 ex_lib ''127.0.0.1'')"
proof -
  have ca: "ParseCertificate ex_lib ''Example CA'' = Inr ex_ca"
    by (simp add: ex_lib_def ex_ParseCertificate_def ex_ca_def)
  have auth: "Authority ex_mitm = Some \<lparr>Certificate = [''Example CA''], PrivateKey = ex_key\<rparr>"
    by (simp add: ex_mitm_def)
  have ip: "ParseIP ex_lib ''127.0.0.1'' = Some [CHR 0x7F, CHR 0x00, CHR 0x00, CHR 0x01]"
    and name: "ParseIP ex_lib ''example.com'' = None"
    by (simp_all add: ex_lib_def ex_ParseIP_def)
  have key: "GenerateKey ex_lib \<lparr>rng_state = Sum256 ex_lib h\<rparr> 2048 =
      (Inr \<lparr>PublicKey = ''public '' @ ex_Sum256 h, Secret = ''secret '' @ ex_Sum256 h\<rparr>,
       \<lparr>rng_state = ex_Sum256 (rev (ex_Sum256 h))\<rparr>)" for h
    by (simp add: ex_lib_def ex_GenerateKey_def)
  from forged_template [of ex_lib "''example.com''" ex_mitm] run_forge_name
  obtain a ca' rest x509ca k rng rng' template der where one:
    "Authority ex_mitm = Some a" "Certificate a = ca' # rest"
    "ParseCertificate ex_lib ca' = Inr x509ca"
    "GenerateKey ex_lib \<lparr>rng_state = Sum256 ex_lib ''example.com''\<rparr> 2048 = (Inr k, rng)"
    "CreateCertificate ex_lib rng template x509ca (PublicKey k) (PrivateKey a) = (Inr der, rng')"
    "ex_leaf ''example.com'' ''example.com'' = \<lparr>Certificate = [der, ca'], PrivateKey = k\<rparr>"
    "template = forge_template ex_lib x509ca ''example.com''"
    "SerialNumber template = big_endian (Sum256 ex_lib ''example.com'')"
    "ParseIP ex_lib ''example.com'' = None \<longrightarrow>
       DNSNames template = [''example.com''] \<and> IPAddresses template = []"
    by blast
  from one(1,2,3) auth ca have x: "x509ca = ex_ca" "PrivateKey a = ex_key" by auto
  from one(4) key [of "''example.com''"]
  have k: "PublicKey k = ''public '' @ ex_Sum256 ''example.com''"
    "rng = snd (GenerateKey ex_lib \<lparr>rng_state = Sum256 ex_lib ''example.com''\<rparr> 2048)"
    by auto
  from one(6) have der: "der = ''leaf example.com''"
    by (simp add: ex_leaf_def)
  from one(5,7,8,9) name have first:
    "fst (CreateCertificate ex_lib
            (snd (GenerateKey ex_lib \<lparr>rng_state = Sum256 ex_lib ''example.com''\<rparr> 2048))
            (forge_template ex_lib ex_ca ''example.com'') ex_ca
            (''public '' @ ex_Sum256 ''example.com'') ex_key)
       = Inr ''leaf example.com''"
    "DNSNames (forge_template ex_lib ex_ca ''example.com'') = [''example.com'']"
    "IPAddresses (forge_template ex_lib ex_ca ''example.com'') = []"
    "SerialNumber (forge_template ex_lib ex_ca ''example.com'')
       = big_endian (Sum256 ex_lib ''example.com'')"
    unfolding x k der by simp_all
  from forged_template [of ex_lib "''127.0.0.1''" ex_mitm] ip
  have second:
    "IPAddresses (forge_template ex_lib ex_ca ''127.0.0.1'')
       = [[CHR 0x7F, CHR 0x00, CHR 0x00, CHR 0x01]]"
    "DNSNames (forge_template ex_lib ex_ca ''127.0.0.1'') = []"
    "SerialNumber (forge_template ex_lib ex_ca ''127.0.0.1'')
       = big_endian (Sum256 ex_lib ''127.0.0.1'')"
    by simp_all
  from run_forge_name run_forge_ip ca ip name first second show ?thesis
    by simp
qed

end
